theory Spec2Isabelle
  imports Main "HOL-Library.AList"
begin

section \<open>Strings\<close>

text \<open>
  Go strings are byte sequences; they are modelled as \<open>string\<close>. Only the functions of
  package \<open>strings\<close> that the modelled code calls are defined. White space is the ASCII
  white space of \<open>unicode.IsSpace\<close> (tab, line feed, vertical tab, form feed, carriage
  return, space).
\<close>

type_synonym hash = string
type_synonym path = string

definition isSpace :: "char \<Rightarrow> bool" where
  "isSpace c = (c \<in> set [CHR 0x09, CHR 0x0A, CHR 0x0B, CHR 0x0C, CHR 0x0D, CHR 0x20])"

definition TrimSpace :: "string \<Rightarrow> string" where
  "TrimSpace s = rev (dropWhile isSpace (rev (dropWhile isSpace s)))"

definition HasPrefix :: "string \<Rightarrow> string \<Rightarrow> bool" where
  "HasPrefix s p = (take (length p) s = p)"

fun Contains :: "string \<Rightarrow> string \<Rightarrow> bool" where
  "Contains [] sub = (sub = [])"
| "Contains (c # s) sub = (HasPrefix (c # s) sub \<or> Contains s sub)"

section \<open>Errors and results\<close>

text \<open>
  A Go \<open>error\<close> is a value of type \<open>error\<close>. \<open>ErrNoCommits\<close> and \<open>ErrNoStash\<close> are the
  sentinels of package \<open>storage\<close> that the code compares with \<open>==\<close>; \<open>UnknownCommit\<close>,
  \<open>ObjectNotFound\<close>, \<open>CorruptObject\<close> and \<open>IOFailure\<close> are the error kinds the
  specification names for the storage layer, \<open>NotSymbolicRef\<close> the failure to name the
  current branch; \<open>Errorf s\<close> is \<open>fmt.Errorf(s)\<close> and
  \<open>Wrapf s e\<close> is \<open>fmt.Errorf(s + ": %w", e)\<close>.

  A function that returns \<open>error\<close> returns \<open>error option\<close> here (\<open>None\<close> is \<open>nil\<close>)
  together with the repository it leaves behind. A function that slices a string
  (\<open>commitHash[:7]\<close>) can also panic; it returns an \<open>outcome\<close>. Text printed on standard
  output is not part of the model.
\<close>

datatype error =
    ErrNoCommits
  | ErrNoStash
  | UnknownCommit
  | ObjectNotFound
  | CorruptObject
  | IOFailure
  | NotSymbolicRef
  | Errorf string
  | Wrapf string error

datatype outcome = Ok | Err error | Panic

section \<open>Repository state\<close>

text \<open>
  \<open>models.Commit\<close> and \<open>RebaseState\<close> are declared outside the given sources; the fields
  are those the sources read and write.
\<close>

record Commit =
  ID :: hash
  Parent :: hash
  Message :: string
  Timestamp :: nat
  TreeHash :: hash
  AuthorName :: string
  AuthorEmail :: string

record RebaseState =
  HeadName :: string
  Onto :: hash
  OrigHead :: hash
  TodoSteps :: "string list"
  CurrentStep :: nat

text \<open>
  The persisted state of one repository and its working tree. Each field is one file
  or directory of the layout; a Go map that the code iterates (a tree, the Index) is an
  association list read through \<open>map_of\<close>, its order standing for the iteration order of
  one run. Paths of the working tree are taken to lie outside \<open>.kitcat\<close>. A write to a
  path in \<open>readonly\<close> fails and changes nothing.
\<close>

record repo =
  kitcat_dir :: bool
  HEAD :: "string option"
  refs :: "string \<rightharpoonup> string"
  objects :: "hash \<rightharpoonup> string"
  index :: "(path \<times> hash) list"
  commits :: "Commit list"
  stash :: "hash list"
  rebase_state :: "RebaseState option"
  rebase_todo :: "string option"
  commit_editmsg :: "string option"
  worktree :: "path \<rightharpoonup> string"
  readonly :: "string set"

text \<open>
  The collaborators that the specification leaves outside the core (section 6) and the
  pure functions whose definition is not in the sources: the path-safety oracle, the
  dirty-workspace check, the configuration lookup (the value, empty when the key is
  absent), the process environment of \<open>getEditor\<close>, the run of the external editor on a
  file (its error and the file it leaves), the digest of an object, SHA-1 in hexadecimal,
  the identity of a commit, the tree codec, the clock, \<open>filepath.Clean\<close>,
  \<open>filepath.Dir\<close> and the texts of the storage layer's errors.
\<close>

record env =
  IsSafePath :: "string \<Rightarrow> bool"
  IsWorkDirDirty :: "repo \<Rightarrow> error + bool"
  GetConfig :: "string \<Rightarrow> string"
  EDITOR :: string
  GOOS :: string
  LookPath :: "string \<Rightarrow> bool"
  Run :: "string \<Rightarrow> string list \<Rightarrow> string option \<Rightarrow> error option \<times> string option"
  digest :: "string \<Rightarrow> hash"
  sha1 :: "string \<Rightarrow> hash"
  hashCommit :: "Commit \<Rightarrow> hash"
  encode_tree :: "(path \<times> hash) list \<Rightarrow> string"
  decode_tree :: "string \<Rightarrow> (path \<times> hash) list option"
  now :: nat
  filepath_Clean :: "string \<Rightarrow> string"
  filepath_Dir :: "string \<Rightarrow> string"
  error_text :: "error \<Rightarrow> string"

text \<open>
  \<open>err.Error()\<close>: the text of an error built by \<open>fmt.Errorf\<close> is known from the
  sources; the text of an error of the storage layer is the environment's.
\<close>

fun Error :: "env \<Rightarrow> error \<Rightarrow> string" where
  "Error env (Errorf s) = s"
| "Error env (Wrapf s e) = s @ '': '' @ Error env e"
| "Error env e = error_text env e"

section \<open>Files\<close>

definition HeadPath :: string where
  "HeadPath = ''.kitcat/HEAD''"

definition IndexPath :: string where
  "IndexPath = ''.kitcat/index''"

definition CommitsPath :: string where
  "CommitsPath = ''.kitcat/commits.log''"

definition StashPath :: string where
  "StashPath = ''.kitcat/refs/stash''"

text \<open>\<open>os.ReadFile(".kitcat/HEAD")\<close> and \<open>os.WriteFile(".kitcat/HEAD", s, 0o644)\<close>.\<close>

definition ReadFile_HEAD :: "repo \<Rightarrow> error + string" where
  "ReadFile_HEAD w = (case HEAD w of None \<Rightarrow> Inl IOFailure | Some s \<Rightarrow> Inr s)"

definition WriteFile_HEAD :: "string \<Rightarrow> repo \<Rightarrow> error option \<times> repo" where
  "WriteFile_HEAD s w =
     (if HeadPath \<in> readonly w then (Some IOFailure, w)
      else (None, w\<lparr>HEAD := Some s\<rparr>))"

text \<open>\<open>os.WriteFile(path, content, 0o644)\<close> and \<open>os.Remove(path)\<close> on the working tree.\<close>

definition WriteFile_work :: "path \<Rightarrow> string \<Rightarrow> repo \<Rightarrow> error option \<times> repo" where
  "WriteFile_work p content w =
     (if p \<in> readonly w then (Some IOFailure, w)
      else (None, w\<lparr>worktree := (worktree w)(p \<mapsto> content)\<rparr>))"

datatype remove_result = Removed | NotExist | RemoveFailed

definition Remove_work :: "path \<Rightarrow> repo \<Rightarrow> remove_result \<times> repo" where
  "Remove_work p w =
     (if worktree w p = None then (NotExist, w)
      else if p \<in> readonly w then (RemoveFailed, w)
      else (Removed, w\<lparr>worktree := (worktree w)(p := None)\<rparr>))"

section \<open>Storage layer\<close>

definition IsRepoInitialized :: "repo \<Rightarrow> bool" where
  \<comment> \<open>Modelled from the spec: \<open>IsRepoInitialized\<close> is not in the sources; a repository is
      the presence of the repository-root marker directory (section 6).\<close>
  "IsRepoInitialized w = kitcat_dir w"

definition FindCommit :: "string \<Rightarrow> repo \<Rightarrow> error + Commit" where
  \<comment> \<open>Modelled from the spec: \<open>storage.FindCommit\<close> is not in the sources;
      \<open>find_commit(id_or_prefix)\<close> fails with UnknownCommit if no match and supports unique
      short-prefix resolution (section 4.3).\<close>
  "FindCommit k w =
     (case filter (\<lambda>c. ID c = k) (commits w) of
        c # _ \<Rightarrow> Inr c
      | [] \<Rightarrow> (case filter (\<lambda>c. HasPrefix (ID c) k) (commits w) of
                 [c] \<Rightarrow> Inr c
               | _ \<Rightarrow> Inl UnknownCommit))"

definition ReadObject :: "hash \<Rightarrow> repo \<Rightarrow> error + string" where
  \<comment> \<open>Modelled from the spec: \<open>storage.ReadObject\<close> is not in the sources; \<open>get(digest)\<close>
      fails with ObjectNotFound if absent (section 4.1).\<close>
  "ReadObject h w = (case objects w h of None \<Rightarrow> Inl ObjectNotFound | Some b \<Rightarrow> Inr b)"

definition ParseTree :: "env \<Rightarrow> hash \<Rightarrow> repo \<Rightarrow> error + (path \<times> hash) list" where
  \<comment> \<open>Modelled from the spec: \<open>storage.ParseTree\<close> is not in the sources;
      \<open>parse_tree(digest)\<close> reads the stored object and fails with CorruptObject if the
      stored bytes do not deserialize (section 4.2).\<close>
  "ParseTree env h w =
     (case ReadObject h w of
        Inl e \<Rightarrow> Inl e
      | Inr b \<Rightarrow> (case decode_tree env b of None \<Rightarrow> Inl CorruptObject | Some t \<Rightarrow> Inr t))"

definition LoadIndex :: "repo \<Rightarrow> error + (path \<times> hash) list" where
  \<comment> \<open>Modelled from the spec: \<open>storage.LoadIndex\<close> is not in the sources; \<open>load_index()\<close>
      returns the persisted mapping (section 4.2).\<close>
  "LoadIndex w = Inr (index w)"

definition WriteIndex :: "(path \<times> hash) list \<Rightarrow> repo \<Rightarrow> error option \<times> repo" where
  \<comment> \<open>Modelled from the spec: \<open>storage.WriteIndex\<close> is not in the sources;
      \<open>write_index(mapping)\<close> replaces the single index file (sections 3 and 4.2).\<close>
  "WriteIndex idx w =
     (if IndexPath \<in> readonly w then (Some IOFailure, w)
      else (None, w\<lparr>index := idx\<rparr>))"

fun write_tree_files :: "(path \<times> hash) list \<Rightarrow> repo \<Rightarrow> error option \<times> repo" where
  "write_tree_files [] w = (None, w)"
| "write_tree_files ((p, h) # t) w =
     (case ReadObject h w of
        Inl e \<Rightarrow> (Some e, w)
      | Inr content \<Rightarrow>
          (case WriteFile_work p content w of
             (Some e, w1) \<Rightarrow> (Some e, w1)
           | (None, w1) \<Rightarrow> write_tree_files t w1))"

fun remove_stale_files :: "path list \<Rightarrow> repo \<Rightarrow> repo" where
  "remove_stale_files [] w = w"
| "remove_stale_files (p # ps) w = remove_stale_files ps (snd (Remove_work p w))"

definition UpdateWorkspaceAndIndex :: "env \<Rightarrow> string \<Rightarrow> repo \<Rightarrow> error option \<times> repo" where
  \<comment> \<open>Modelled from the spec: \<open>UpdateWorkspaceAndIndex\<close> is not in the sources. It is the
      Workspace Synchronizer \<open>sync_to(commit_id)\<close> of section 4.4: resolve the target commit
      and parse its tree T; write every blob of T to its path; remove the paths tracked
      in the previous Index but absent from T; replace the Index wholesale with T.\<close>
  "UpdateWorkspaceAndIndex env commitHash w =
     (case FindCommit commitHash w of
        Inl e \<Rightarrow> (Some e, w)
      | Inr commit \<Rightarrow>
          (case ParseTree env (TreeHash commit) w of
             Inl e \<Rightarrow> (Some e, w)
           | Inr tree \<Rightarrow>
               (case write_tree_files tree w of
                  (Some e, w1) \<Rightarrow> (Some e, w1)
                | (None, w1) \<Rightarrow>
                    WriteIndex tree
                      (remove_stale_files
                         (filter (\<lambda>p. map_of tree p = None) (map fst (index w1))) w1))))"

section \<open>Reset (reset.go)\<close>

definition ResetHard :: string where
  "ResetHard = ''hard''"

definition ResetSoft :: string where
  "ResetSoft = ''soft''"

definition ResetMixed :: string where
  "ResetMixed = ''mixed''"

text \<open>
  \<open>resetIndex\<close>: the tree of the target commit is copied into a fresh map, which is
  written as the Index.
\<close>

definition resetIndex :: "env \<Rightarrow> string \<Rightarrow> repo \<Rightarrow> error option \<times> repo" where
  "resetIndex env commitHash w =
     (case FindCommit commitHash w of
        Inl e \<Rightarrow> (Some (Wrapf ''commit not found'' e), w)
      | Inr commit \<Rightarrow>
          (case ParseTree env (TreeHash commit) w of
             Inl e \<Rightarrow> (Some (Wrapf (''failed to parse tree '' @ TreeHash commit) e), w)
           | Inr tree \<Rightarrow> WriteIndex tree w))"

definition resetWorkspace :: "env \<Rightarrow> string \<Rightarrow> repo \<Rightarrow> error option \<times> repo" where
  "resetWorkspace env commitHash w = UpdateWorkspaceAndIndex env commitHash w"

text \<open>
  The tail shared by the three rollbacks of \<open>Reset\<close>: \<open>oldHead\<close> is written back to HEAD;
  if that write fails its error is returned, otherwise the error \<open>e\<close> of the step that
  failed.
\<close>

definition restore_HEAD :: "string \<Rightarrow> error \<Rightarrow> repo \<Rightarrow> outcome \<times> repo" where
  "restore_HEAD oldHead e w =
     (case WriteFile_HEAD oldHead w of
        (Some e', w1) \<Rightarrow> (Err (Wrapf ''failed to update HEAD'' e'), w1)
      | (None, w1) \<Rightarrow> (Err e, w1))"

text \<open>
  \<open>fmt.Printf("HEAD is now at %s %s\n", commitHash[:7], commit.Message)\<close> followed by
  \<open>return nil\<close>: the slice panics when \<open>commitHash\<close> has fewer than 7 bytes.
\<close>

definition print_HEAD_is_now :: "string \<Rightarrow> repo \<Rightarrow> outcome \<times> repo" where
  "print_HEAD_is_now commitHash w = (if length commitHash < 7 then (Panic, w) else (Ok, w))"

definition Reset :: "env \<Rightarrow> string \<Rightarrow> string \<Rightarrow> repo \<Rightarrow> outcome \<times> repo" where
  "Reset env commitHash mode w =
     (if \<not> IsRepoInitialized w then
        (Err (Errorf ''not a kitcat repository (or any of the parent directories): .kitcat''), w)
      else case FindCommit commitHash w of
        Inl _ \<Rightarrow> (Err (Errorf (''fatal: invalid commit: '' @ commitHash)), w)
      | Inr commit \<Rightarrow>
          (case ReadFile_HEAD w of
             Inl e \<Rightarrow> (Err (Wrapf ''fatal: unable to read HEAD'' e), w)
           | Inr headData \<Rightarrow>
               (let oldHead = TrimSpace headData in
                case WriteFile_HEAD commitHash w of
                  (Some e, w1) \<Rightarrow> (Err (Wrapf ''failed to update HEAD'' e), w1)
                | (None, w1) \<Rightarrow>
                    if mode = ResetSoft then print_HEAD_is_now commitHash w1
                    else if mode = ResetMixed then
                      (case resetIndex env commitHash w1 of
                         (Some e, w2) \<Rightarrow> restore_HEAD oldHead (Wrapf ''failed to reset index'' e) w2
                       | (None, w2) \<Rightarrow> print_HEAD_is_now commitHash w2)
                    else if mode = ResetHard then
                      (case resetIndex env commitHash w1 of
                         (Some e, w2) \<Rightarrow> restore_HEAD oldHead (Wrapf ''failed to reset index'' e) w2
                       | (None, w2) \<Rightarrow>
                           (case resetWorkspace env commitHash w2 of
                              (Some e, w3) \<Rightarrow>
                                restore_HEAD oldHead (Wrapf ''failed to reset workspace'' e) w3
                            | (None, w3) \<Rightarrow> print_HEAD_is_now commitHash w3))
                    else
                      restore_HEAD oldHead
                        (Errorf (''unknown reset mode: '' @ mode
                                  @ ''. Use --soft, --mixed, or --hard'')) w1)))"

section \<open>References and the rest of the storage layer\<close>

definition zero_Commit :: Commit where
  "zero_Commit = \<lparr>ID = '''', Parent = '''', Message = '''', Timestamp = 0, TreeHash = '''',
                  AuthorName = '''', AuthorEmail = ''''\<rparr>"

text \<open>
  \<open>c, _ := f()\<close>: the error is dropped and the value is the zero value of its type when
  \<open>f\<close> failed.
\<close>

definition commit_or_zero :: "error + Commit \<Rightarrow> Commit" where
  "commit_or_zero r = (case r of Inl _ \<Rightarrow> zero_Commit | Inr c \<Rightarrow> c)"

definition tree_or_nil :: "error + (path \<times> hash) list \<Rightarrow> (path \<times> hash) list" where
  "tree_or_nil r = (case r of Inl _ \<Rightarrow> [] | Inr t \<Rightarrow> t)"

text \<open>The reference files under \<open>.kitcat\<close>, for instance \<open>.kitcat/refs/heads/main\<close>.\<close>

definition WriteFile_ref :: "string \<Rightarrow> string \<Rightarrow> repo \<Rightarrow> error option \<times> repo" where
  "WriteFile_ref name s w =
     (if (''.kitcat/'' @ name) \<in> readonly w then (Some IOFailure, w)
      else (None, w\<lparr>refs := (refs w)(name \<mapsto> s)\<rparr>))"

definition Remove_ref :: "string \<Rightarrow> repo \<Rightarrow> repo" where
  "Remove_ref name w =
     (if (''.kitcat/'' @ name) \<in> readonly w then w
      else w\<lparr>refs := (refs w)(name := None)\<rparr>)"

definition MkdirAll :: "string \<Rightarrow> repo \<Rightarrow> error option" where
  "MkdirAll d w = (if d \<in> readonly w then Some IOFailure else None)"

definition readHead :: "repo \<Rightarrow> error + hash" where
  \<comment> \<open>Modelled from the spec: \<open>readHead\<close> is not in the sources; HEAD is either a symbolic
      pointer to a branch or a literal commit digest, a branch is a named pointer to a
      commit digest (section 3), and both are read as small text files (section 4.3).\<close>
  "readHead w =
     (case HEAD w of
        None \<Rightarrow> Inl IOFailure
      | Some s \<Rightarrow>
          if HasPrefix (TrimSpace s) ''ref: '' then
            (case refs w (drop 5 (TrimSpace s)) of
               None \<Rightarrow> Inl IOFailure
             | Some h \<Rightarrow> Inr (TrimSpace h))
          else Inr (TrimSpace s))"

definition GetHeadState :: "repo \<Rightarrow> error + string" where
  \<comment> \<open>Modelled from the spec: \<open>GetHeadState\<close> is not in the sources; the resolution of
      the current branch name fails when HEAD is not a symbolic ref, and the caller
      supplies the fallback (section 4.3).\<close>
  "GetHeadState w =
     (case HEAD w of
        None \<Rightarrow> Inl IOFailure
      | Some s \<Rightarrow>
          if HasPrefix (TrimSpace s) ''ref: refs/heads/'' then Inr (drop 16 (TrimSpace s))
          else Inl NotSymbolicRef)"

definition GetHeadCommit :: "repo \<Rightarrow> error + Commit" where
  \<comment> \<open>Modelled from the spec: \<open>GetHeadCommit\<close> is not in the sources; it is the commit HEAD
      points at, and in a repository with no commits yet it fails with the sentinel
      \<open>storage.ErrNoCommits\<close> (sections 4.6 and 8).\<close>
  "GetHeadCommit w =
     (if commits w = [] then Inl ErrNoCommits
      else case readHead w of Inl e \<Rightarrow> Inl e | Inr h \<Rightarrow> FindCommit h w)"

definition UpdateBranchPointer :: "hash \<Rightarrow> repo \<Rightarrow> error option \<times> repo" where
  \<comment> \<open>Modelled from the spec: \<open>UpdateBranchPointer\<close> is not in the sources; it repoints the
      current branch (section 4.7), or HEAD itself when HEAD is detached (section 3).\<close>
  "UpdateBranchPointer h w =
     (case HEAD w of
        None \<Rightarrow> (Some IOFailure, w)
      | Some s \<Rightarrow>
          if HasPrefix (TrimSpace s) ''ref: '' then WriteFile_ref (drop 5 (TrimSpace s)) h w
          else WriteFile_HEAD h w)"

definition put_object :: "env \<Rightarrow> string \<Rightarrow> repo \<Rightarrow> (error + hash) \<times> repo" where
  \<comment> \<open>Modelled from the spec: the Object Store is not in the sources; \<open>put(bytes)\<close>
      computes the digest, writes the content under a digest-derived path if absent and
      returns the digest (section 4.1).\<close>
  "put_object env b w =
     (if objects w (digest env b) \<noteq> None then (Inr (digest env b), w)
      else if (''.kitcat/objects/'' @ digest env b) \<in> readonly w then (Inl IOFailure, w)
      else (Inr (digest env b), w\<lparr>objects := (objects w)(digest env b \<mapsto> b)\<rparr>))"

definition HashAndStoreFile :: "env \<Rightarrow> path \<Rightarrow> repo \<Rightarrow> (error + hash) \<times> repo" where
  \<comment> \<open>Modelled from the spec: \<open>storage.HashAndStoreFile\<close> is not in the sources; it puts
      the content of a file of the working tree into the Object Store (sections 4.1
      and 4.6).\<close>
  "HashAndStoreFile env p w =
     (case worktree w p of
        None \<Rightarrow> (Inl IOFailure, w)
      | Some b \<Rightarrow> put_object env b w)"

definition CreateTree :: "env \<Rightarrow> repo \<Rightarrow> (error + hash) \<times> repo" where
  \<comment> \<open>Modelled from the spec: \<open>storage.CreateTree\<close> is not in the sources;
      \<open>create_tree\<close> serializes the Index into a Tree object and stores it (section 4.2).\<close>
  "CreateTree env w =
     (case LoadIndex w of
        Inl e \<Rightarrow> (Inl e, w)
      | Inr idx \<Rightarrow> put_object env (encode_tree env idx) w)"

definition AppendCommit :: "Commit \<Rightarrow> repo \<Rightarrow> error option \<times> repo" where
  \<comment> \<open>Modelled from the spec: \<open>storage.AppendCommit\<close> is not in the sources;
      \<open>append_commit(commit)\<close> appends to the commit log and fails only on I/O error
      (section 4.3).\<close>
  "AppendCommit c w =
     (if CommitsPath \<in> readonly w then (Some IOFailure, w)
      else (None, w\<lparr>commits := commits w @ [c]\<rparr>))"

definition UpdateIndex ::
  "((path \<times> hash) list \<Rightarrow> repo \<Rightarrow> (error option \<times> (path \<times> hash) list) \<times> repo)
     \<Rightarrow> repo \<Rightarrow> error option \<times> repo" where
  \<comment> \<open>Modelled from the spec: \<open>storage.UpdateIndex\<close> is not in the sources;
      \<open>update_index(fn)\<close> loads the current index, applies the mutation function and
      persists only if the function succeeds (sections 3 and 4.2). The function mutates
      the map it is given and may act on the file system.\<close>
  "UpdateIndex fn w =
     (case LoadIndex w of
        Inl e \<Rightarrow> (Some e, w)
      | Inr idx \<Rightarrow>
          (case fn idx w of
             ((Some e, idx'), w1) \<Rightarrow> (Some e, w1)
           | ((None, idx'), w1) \<Rightarrow> WriteIndex idx' w1))"

definition AddFile :: "env \<Rightarrow> path \<Rightarrow> repo \<Rightarrow> error option \<times> repo" where
  \<comment> \<open>Modelled from the spec: \<open>AddFile\<close> is not in the sources; it stages the file in the
      Index (section 4.7): the content is stored as a blob and the Index maps the path
      to its digest, through the scoped update of section 3.\<close>
  "AddFile env p w =
     (case HashAndStoreFile env p w of
        (Inl e, w1) \<Rightarrow> (Some e, w1)
      | (Inr h, w1) \<Rightarrow> UpdateIndex (\<lambda>idx w'. ((None, AList.update p h idx), w')) w1)"

definition Commit :: "env \<Rightarrow> string \<Rightarrow> repo \<Rightarrow> (error + Commit) \<times> repo" where
  \<comment> \<open>Modelled from the spec: \<open>Commit\<close> is not in the sources; it creates a new commit
      whose tree is built from the Index, with the current HEAD as parent and the given
      message, and repoints the branch (section 4.7). Its callers test the error text
      for "nothing to commit": the model raises that error when the tree built from the
      Index is the tree of the HEAD commit.\<close>
  "Commit env message w =
     (case CreateTree env w of
        (Inl e, w1) \<Rightarrow> (Inl e, w1)
      | (Inr treeHash, w1) \<Rightarrow>
          if (case GetHeadCommit w1 of Inl _ \<Rightarrow> False | Inr h \<Rightarrow> TreeHash h = treeHash) then
            (Inl (Errorf ''nothing to commit, working tree clean''), w1)
          else
            (let c0 = \<lparr>ID = '''', Parent = ID (commit_or_zero (GetHeadCommit w1)),
                       Message = message, Timestamp = now env, TreeHash = treeHash,
                       AuthorName = (if GetConfig env ''user.name'' = '''' then ''Unknown''
                                     else GetConfig env ''user.name''),
                       AuthorEmail = (if GetConfig env ''user.email'' = ''''
                                      then ''unknown@example.com''
                                      else GetConfig env ''user.email'')\<rparr>;
                 c = c0\<lparr>ID := hashCommit env c0\<rparr>
             in case AppendCommit c w1 of
                  (Some e, w2) \<Rightarrow> (Inl e, w2)
                | (None, w2) \<Rightarrow>
                    (case UpdateBranchPointer (ID c) w2 of
                       (Some e, w3) \<Rightarrow> (Inl e, w3)
                     | (None, w3) \<Rightarrow> (Inr c, w3))))"

definition ListStashes :: "repo \<Rightarrow> error + hash list" where
  \<comment> \<open>Modelled from the spec: \<open>storage.ListStashes\<close> is not in the sources; the stash stack
      is an ordered sequence of commit digests, index 0 the most recently pushed
      (section 3).\<close>
  "ListStashes w = Inr (stash w)"

definition PushStash :: "hash \<Rightarrow> repo \<Rightarrow> error option \<times> repo" where
  \<comment> \<open>Modelled from the spec: \<open>storage.PushStash\<close> is not in the sources; push prepends
      (section 3).\<close>
  "PushStash h w =
     (if StashPath \<in> readonly w then (Some IOFailure, w)
      else (None, w\<lparr>stash := h # stash w\<rparr>))"

definition PopStash :: "repo \<Rightarrow> (error + hash) \<times> repo" where
  \<comment> \<open>Modelled from the spec: \<open>storage.PopStash\<close> is not in the sources; pop fails with
      NoStashEntries (the sentinel \<open>storage.ErrNoStash\<close>) if the stack is empty, and
      otherwise removes the entry at index 0, the most recently pushed, and returns it,
      the rest keeping its order (sections 3 and 4.6).\<close>
  "PopStash w =
     (case stash w of
        [] \<Rightarrow> (Inl ErrNoStash, w)
      | h # rest \<Rightarrow>
          if StashPath \<in> readonly w then (Inl IOFailure, w)
          else (Inr h, w\<lparr>stash := rest\<rparr>))"

definition RebaseStatePath :: string where
  "RebaseStatePath = ''.kitcat/rebase-state''"

definition IsRebaseInProgress :: "repo \<Rightarrow> bool" where
  \<comment> \<open>Modelled from the spec: \<open>IsRebaseInProgress\<close> is not in the sources; the presence of
      the persisted RebaseState is the sole signal that a rebase is in progress
      (section 3).\<close>
  "IsRebaseInProgress w = (rebase_state w \<noteq> None)"

definition LoadRebaseState :: "repo \<Rightarrow> error + RebaseState" where
  \<comment> \<open>Modelled from the spec: \<open>LoadRebaseState\<close> is not in the sources; it reads the
      persisted RebaseState (section 3).\<close>
  "LoadRebaseState w = (case rebase_state w of None \<Rightarrow> Inl IOFailure | Some st \<Rightarrow> Inr st)"

definition SaveRebaseState :: "RebaseState \<Rightarrow> repo \<Rightarrow> error option \<times> repo" where
  \<comment> \<open>Modelled from the spec: \<open>SaveRebaseState\<close> is not in the sources; it persists the
      RebaseState (sections 3 and 4.7).\<close>
  "SaveRebaseState st w =
     (if RebaseStatePath \<in> readonly w then (Some IOFailure, w)
      else (None, w\<lparr>rebase_state := Some st\<rparr>))"

definition ClearRebaseState :: "repo \<Rightarrow> error option \<times> repo" where
  \<comment> \<open>Modelled from the spec: \<open>ClearRebaseState\<close> is not in the sources; the RebaseState is
      deleted on completion or abort, and the rebase-todo/rebase-state pair is present
      only while a rebase is in progress (sections 3 and 6).\<close>
  "ClearRebaseState w =
     (if RebaseStatePath \<in> readonly w then (Some IOFailure, w)
      else (None, w\<lparr>rebase_state := None, rebase_todo := None\<rparr>))"

definition ReadNextTodo :: "repo \<Rightarrow> error + (string \<times> RebaseState)" where
  \<comment> \<open>Modelled from the spec: \<open>ReadNextTodo\<close> is not in the sources; the loop reads the step
      at the current index of the persisted RebaseState (section 4.7). Past the last
      step the line is empty and no error is raised: the caller tests the index.\<close>
  "ReadNextTodo w =
     (case LoadRebaseState w of
        Inl e \<Rightarrow> Inl e
      | Inr st \<Rightarrow>
          Inr (if CurrentStep st < length (TodoSteps st) then TodoSteps st ! CurrentStep st
               else '''', st))"

definition AdvanceRebaseStep :: "RebaseState \<Rightarrow> repo \<Rightarrow> error option \<times> repo" where
  \<comment> \<open>Modelled from the spec: \<open>AdvanceRebaseStep\<close> is not in the sources; on success the
      step index is advanced and the state persisted (section 4.7).\<close>
  "AdvanceRebaseStep st w = SaveRebaseState (st\<lparr>CurrentStep := CurrentStep st + 1\<rparr>) w"

section \<open>Stash (stash.go)\<close>

text \<open>
  The loop of step 5 of \<open>StashPush\<close> over the entries of the loaded index: a tracked path
  that exists on disk is hashed, stored and its entry replaced.
\<close>

fun rehash_tracked ::
  "env \<Rightarrow> (path \<times> hash) list \<Rightarrow> (path \<times> hash) list \<Rightarrow> repo
     \<Rightarrow> (error + (path \<times> hash) list) \<times> repo" where
  "rehash_tracked env [] idx w = (Inr idx, w)"
| "rehash_tracked env ((p, _) # rest) idx w =
     (if worktree w p \<noteq> None then
        (case HashAndStoreFile env p w of
           (Inl e, w1) \<Rightarrow> (Inl (Wrapf (''failed to hash file '' @ p) e), w1)
         | (Inr h, w1) \<Rightarrow> rehash_tracked env rest (AList.update p h idx) w1)
      else rehash_tracked env rest idx w)"

definition StashPush :: "env \<Rightarrow> string \<Rightarrow> repo \<Rightarrow> outcome \<times> repo" where
  "StashPush env message w =
     (if \<not> IsRepoInitialized w then
        (Err (Errorf ''Fatal: current directory or any of the parent directories is not a kitcat repository.''), w)
      else case GetHeadCommit w of
        Inl err \<Rightarrow>
          if err = ErrNoCommits \<or> Contains (Error env err) ''not found'' then
            (Err (Errorf ''cannot stash: no commits yet''), w)
          else (Err (Wrapf ''failed to get HEAD commit'' err), w)
      | Inr headCommit \<Rightarrow>
          (case IsWorkDirDirty env w of
             Inl err \<Rightarrow> (Err (Wrapf ''failed to check working directory status'' err), w)
           | Inr isDirty \<Rightarrow>
               if \<not> isDirty then (Err (Errorf ''nothing to stash, working tree clean''), w)
               else
                 (let branchName = (case GetHeadState w of Inl _ \<Rightarrow> ''detached HEAD''
                                    | Inr b \<Rightarrow> b)
                  in case LoadIndex w of
                    Inl err \<Rightarrow> (Err (Wrapf ''failed to load index'' err), w)
                  | Inr idx \<Rightarrow>
                  (case rehash_tracked env idx idx w of
                    (Inl err, w1) \<Rightarrow> (Err err, w1)
                  | (Inr idx', w1) \<Rightarrow>
                  (case WriteIndex idx' w1 of
                    (Some err, w2) \<Rightarrow> (Err (Wrapf ''failed to write updated index'' err), w2)
                  | (None, w2) \<Rightarrow>
                  (case CreateTree env w2 of
                    (Inl err, w3) \<Rightarrow> (Err (Wrapf ''failed to create tree from index'' err), w3)
                  | (Inr treeHash, w3) \<Rightarrow>
                  (let authorName = (if GetConfig env ''user.name'' = '''' then ''Unknown''
                                     else GetConfig env ''user.name'');
                       authorEmail = (if GetConfig env ''user.email'' = ''''
                                      then ''unknown@example.com''
                                      else GetConfig env ''user.email'');
                       wipMessage = (if message \<noteq> ''''
                                     then ''WIP on '' @ branchName @ '': '' @ message
                                     else ''WIP on '' @ branchName @ '': '' @ Message headCommit);
                       stashCommit0 = \<lparr>ID = '''', Parent = ID headCommit, Message = wipMessage,
                                       Timestamp = now env, TreeHash = treeHash,
                                       AuthorName = authorName, AuthorEmail = authorEmail\<rparr>;
                       stashCommit = stashCommit0\<lparr>ID := hashCommit env stashCommit0\<rparr>
                   in case AppendCommit stashCommit w3 of
                    (Some err, w4) \<Rightarrow> (Err (Wrapf ''failed to save stash commit'' err), w4)
                  | (None, w4) \<Rightarrow>
                  (case PushStash (ID stashCommit) w4 of
                    (Some err, w5) \<Rightarrow> (Err (Wrapf ''failed to push stash'' err), w5)
                  | (None, w5) \<Rightarrow>
                  (case Reset env (ID headCommit) ResetHard w5 of
                    (Err err, w6) \<Rightarrow>
                      (Err (Wrapf ''failed to reset workspace after stashing'' err), w6)
                  | (Panic, w6) \<Rightarrow> (Panic, w6)
                  | (Ok, w6) \<Rightarrow> (Ok, w6))))))))))"

definition Stash :: "env \<Rightarrow> repo \<Rightarrow> outcome \<times> repo" where
  "Stash env w = StashPush env '''' w"

text \<open>
  \<open>StashPop\<close>. Its last two statements print the branch name and
  \<open>stashCommit.ID[:7]\<close>; the slice panics on an identifier shorter than 7 bytes.
\<close>

definition StashPop :: "env \<Rightarrow> repo \<Rightarrow> outcome \<times> repo" where
  "StashPop env w =
     (if \<not> IsRepoInitialized w then
        (Err (Errorf ''Fatal: current directory or any of the parent directories is not a kitcat repository.''), w)
      else case PopStash w of
        (Inl err, w1) \<Rightarrow>
          if err = ErrNoStash then (Err (Errorf ''no stash entries found''), w1)
          else (Err (Wrapf ''failed to pop stash'' err), w1)
      | (Inr stashHash, w1) \<Rightarrow>
          (case FindCommit stashHash w1 of
             Inl err \<Rightarrow> (Err (Wrapf ''stash commit not found'' err), w1)
           | Inr stashCommit \<Rightarrow>
               (case IsWorkDirDirty env w1 of
                  Inl err \<Rightarrow> (Err (Wrapf ''failed to check working directory status'' err), w1)
                | Inr isDirty \<Rightarrow>
                    if isDirty then
                      (Err (Errorf (''Error: your local changes would be overwritten by stash pop''
                                    @ [CHR 0x0A]
                                    @ ''Please commit your changes or stash them before you pop'')),
                       w1)
                    else
                      (case UpdateWorkspaceAndIndex env stashHash w1 of
                         (Some err, w2) \<Rightarrow> (Err (Wrapf ''failed to apply stash'' err), w2)
                       | (None, w2) \<Rightarrow>
                           if length (ID stashCommit) < 7 then (Panic, w2) else (Ok, w2)))))"

section \<open>Removing a file\<close>

text \<open>
  \<open>RemoveFile\<close>. The function passed to \<open>storage.UpdateIndex\<close> is \<open>RemoveFile_fn\<close>; its
  two loops over \<open>filesToRemove\<close> are \<open>remove_from_disk\<close> (a failure of \<open>os.Remove\<close> is
  at most a warning) and the fold of \<open>AList.delete\<close>. The path separator is that of
  Unix.
\<close>

fun remove_from_disk :: "path list \<Rightarrow> repo \<Rightarrow> repo" where
  "remove_from_disk [] w = w"
| "remove_from_disk (p # ps) w = remove_from_disk ps (snd (Remove_work p w))"

definition pathspec_error :: "string \<Rightarrow> error" where
  "pathspec_error filename =
     Errorf (''pathspec '' @ [CHR 0x27] @ filename @ [CHR 0x27] @ '' did not match any files'')"

definition RemoveFile_fn ::
  "string \<Rightarrow> bool \<Rightarrow> (path \<times> hash) list \<Rightarrow> repo
     \<Rightarrow> (error option \<times> (path \<times> hash) list) \<times> repo" where
  "RemoveFile_fn filename recursive idx w =
     (if \<not> recursive \<and> map_of idx filename = None then
        ((Some (pathspec_error filename), idx), w)
      else
        (let filesToRemove =
               (if recursive then
                  filter (\<lambda>trackedFile. trackedFile = filename
                                          \<or> HasPrefix trackedFile (filename @ ''/''))
                    (map fst idx)
                else [filename])
         in if filesToRemove = [] then ((Some (pathspec_error filename), idx), w)
            else ((None, fold AList.delete filesToRemove idx),
                  remove_from_disk filesToRemove w)))"

definition RemoveFile :: "env \<Rightarrow> string \<Rightarrow> bool \<Rightarrow> repo \<Rightarrow> error option \<times> repo" where
  "RemoveFile env filename recursive w =
     (if \<not> IsSafePath env (filepath_Clean env filename) then
        (Some (Errorf (''unsafe path detected: '' @ filepath_Clean env filename)), w)
      else UpdateIndex (RemoveFile_fn (filepath_Clean env filename) recursive) w)"

section \<open>Cherry-pick\<close>

record Change =
  OldHash :: string
  NewHash :: string

text \<open>
  \<open>getChanges\<close>. \<open>parentTree_of\<close> is its first block: \<open>parentTree\<close> is empty when the
  parent is absent, cannot be found or has a tree that cannot be parsed.
  \<open>changes_between\<close> is its two loops, over the child tree and then over the parent
  tree, which build the map \<open>changes\<close>.
\<close>

definition lookup_or_empty :: "(path \<times> hash) list \<Rightarrow> path \<Rightarrow> hash" where
  "lookup_or_empty t p = (case map_of t p of None \<Rightarrow> [] | Some h \<Rightarrow> h)"

definition parentTree_of :: "env \<Rightarrow> string \<Rightarrow> repo \<Rightarrow> (path \<times> hash) list" where
  "parentTree_of env parentHash w =
     (if parentHash \<noteq> [] then
        (case FindCommit parentHash w of
           Inl _ \<Rightarrow> []
         | Inr pC \<Rightarrow> tree_or_nil (ParseTree env (TreeHash pC) w))
      else [])"

definition changes_between ::
  "(path \<times> hash) list \<Rightarrow> (path \<times> hash) list \<Rightarrow> (path \<times> Change) list" where
  "changes_between parentTree childTree =
     fold (\<lambda>(p, _) changes.
             if map_of childTree p = None then
               AList.update p \<lparr>OldHash = lookup_or_empty parentTree p, NewHash = []\<rparr> changes
             else changes)
       parentTree
       (fold (\<lambda>(p, h) changes.
                if map_of parentTree p \<noteq> Some h then
                  AList.update p \<lparr>OldHash = lookup_or_empty parentTree p, NewHash = h\<rparr> changes
                else changes)
          childTree [])"

definition getChanges ::
  "env \<Rightarrow> string \<Rightarrow> string \<Rightarrow> repo \<Rightarrow> error + (path \<times> Change) list" where
  "getChanges env parentHash childHash w =
     (case FindCommit childHash w of
        Inl err \<Rightarrow> Inl err
      | Inr childCommit \<Rightarrow>
          (case ParseTree env (TreeHash childCommit) w of
             Inl err \<Rightarrow> Inl err
           | Inr childTree \<Rightarrow>
               Inr (changes_between (parentTree_of env parentHash w) childTree)))"

text \<open>
  \<open>applyChanges\<close>. The tree of HEAD is read once, errors dropped; \<open>applyChange\<close> is the
  body of the loop over \<open>changes\<close>, which returns at the first error.
\<close>

definition head_tree :: "env \<Rightarrow> repo \<Rightarrow> (path \<times> hash) list" where
  "head_tree env w =
     tree_or_nil (ParseTree env (TreeHash (commit_or_zero (GetHeadCommit w))) w)"

definition conflict_error :: "path \<Rightarrow> string \<Rightarrow> error" where
  "conflict_error p what = Errorf (''conflict in '' @ p @ '': '' @ what)"

definition write_and_stage :: "env \<Rightarrow> path \<Rightarrow> string \<Rightarrow> repo \<Rightarrow> error option \<times> repo" where
  "write_and_stage env p content w =
     (case MkdirAll (filepath_Dir env p) w of
        Some err \<Rightarrow> (Some err, w)
      | None \<Rightarrow>
          (case WriteFile_work p content w of
             (Some err, w1) \<Rightarrow> (Some err, w1)
           | (None, w1) \<Rightarrow> AddFile env p w1))"

definition applyChange ::
  "env \<Rightarrow> (path \<times> hash) list \<Rightarrow> path \<Rightarrow> Change \<Rightarrow> repo \<Rightarrow> error option \<times> repo" where
  "applyChange env headTree p change w =
     (if NewHash change = '''' then
        (case map_of headTree p of
           Some headFileHash \<Rightarrow>
             if headFileHash \<noteq> OldHash change then
               (Some (conflict_error p ''deleted in incoming commit, but modified in HEAD''), w)
             else RemoveFile env p False w
         | None \<Rightarrow> RemoveFile env p False w)
      else
        (case ReadObject (NewHash change) w of
           Inl err \<Rightarrow> (Some err, w)
         | Inr content \<Rightarrow>
             (case map_of headTree p of
                Some headFileHash \<Rightarrow>
                  if headFileHash \<noteq> OldHash change then
                    (Some (conflict_error p
                             ''modified in incoming commit, but modified in HEAD''), w)
                  else write_and_stage env p content w
              | None \<Rightarrow>
                  if OldHash change \<noteq> '''' then
                    (Some (conflict_error p
                             ''modified in incoming commit, but deleted in HEAD''), w)
                  else write_and_stage env p content w)))"

fun applyChanges_loop ::
  "env \<Rightarrow> (path \<times> hash) list \<Rightarrow> (path \<times> Change) list \<Rightarrow> repo \<Rightarrow> error option \<times> repo" where
  "applyChanges_loop env headTree [] w = (None, w)"
| "applyChanges_loop env headTree ((p, change) # rest) w =
     (case applyChange env headTree p change w of
        (Some err, w1) \<Rightarrow> (Some err, w1)
      | (None, w1) \<Rightarrow> applyChanges_loop env headTree rest w1)"

definition applyChanges :: "env \<Rightarrow> (path \<times> Change) list \<Rightarrow> repo \<Rightarrow> error option \<times> repo" where
  "applyChanges env changes w = applyChanges_loop env (head_tree env w) changes w"

definition cherryPick :: "env \<Rightarrow> string \<Rightarrow> bool \<Rightarrow> repo \<Rightarrow> error option \<times> repo" where
  "cherryPick env h noCommit w =
     (case FindCommit h w of
        Inl err \<Rightarrow> (Some err, w)
      | Inr commit \<Rightarrow>
          (case getChanges env (Parent commit) h w of
             Inl err \<Rightarrow> (Some err, w)
           | Inr changes \<Rightarrow>
               (case applyChanges env changes w of
                  (Some err, w1) \<Rightarrow> (Some err, w1)
                | (None, w1) \<Rightarrow>
                    if noCommit then (None, w1)
                    else
                      (case Commit env (Message commit) w1 of
                         (Inl err, w2) \<Rightarrow>
                           if Contains (Error env err) ''nothing to commit'' then (None, w2)
                           else (Some err, w2)
                       | (Inr _, w2) \<Rightarrow> (None, w2)))))"

section \<open>Interactive rebase\<close>

text \<open>\<open>strings.Split(s, "\n")\<close> and \<open>strings.Fields(s)\<close>.\<close>

fun Split_lines :: "string \<Rightarrow> string list" where
  "Split_lines [] = [[]]"
| "Split_lines (c # s) =
     (if c = CHR 0x0A then [] # Split_lines s
      else (case Split_lines s of [] \<Rightarrow> [[c]] | l # ls \<Rightarrow> (c # l) # ls))"

fun Fields_from :: "string \<Rightarrow> string \<Rightarrow> string list" where
  "Fields_from cur [] = (if cur = [] then [] else [rev cur])"
| "Fields_from cur (c # s) =
     (if isSpace c then (if cur = [] then Fields_from [] s else rev cur # Fields_from [] s)
      else Fields_from (c # cur) s)"

definition Fields :: "string \<Rightarrow> string list" where
  "Fields s = Fields_from [] s"

text \<open>\<open>getEditor\<close>: the editor and its arguments, from the process environment.\<close>

fun first_editor :: "env \<Rightarrow> string list \<Rightarrow> error + (string \<times> string list)" where
  "first_editor env [] =
     Inl (Errorf ''no suitable editor found (checked code, nano, micro, vim)'')"
| "first_editor env (e # es) =
     (if LookPath env e then (if e = ''code'' then Inr (e, [''--wait'']) else Inr (e, []))
      else first_editor env es)"

definition getEditor :: "env \<Rightarrow> error + (string \<times> string list)" where
  "getEditor env =
     (if EDITOR env \<noteq> '''' then Inr (EDITOR env, [])
      else if GOOS env = ''windows'' then
        (if LookPath env ''code'' then Inr (''code'', [''--wait'']) else Inr (''notepad'', []))
      else first_editor env [''code'', ''nano'', ''micro'', ''vim''])"

definition generateTodo :: "string list \<Rightarrow> repo \<Rightarrow> string" where
  "generateTodo hashes w =
     concat (map (\<lambda>h. ''pick '' @ h @ '' '' @ Message (commit_or_zero (FindCommit h w))
                       @ [CHR 0x0A]) hashes)
     @ [CHR 0x0A] @ ''# Commands:'' @ [CHR 0x0A]
     @ ''# p, pick <commit> = use commit'' @ [CHR 0x0A]
     @ ''# r, reword <commit> = use commit, but edit the commit message'' @ [CHR 0x0A]
     @ ''# s, squash <commit> = use commit, but meld into previous commit'' @ [CHR 0x0A]
     @ ''# d, drop <commit> = remove commit'' @ [CHR 0x0A]"

definition parseTodo :: "string \<Rightarrow> string list" where
  "parseTodo content =
     filter (\<lambda>line. \<not> (line = '''' \<or> HasPrefix line ''#''))
       (map TrimSpace (Split_lines content))"

text \<open>
  \<open>getCommitsBetween\<close>. \<open>getCommitsBetween_loop\<close> is its \<open>for curr != ""\<close> loop, with the
  chain collected so far and the current commit \<open>curr\<close>; nothing bounds the number of its
  iterations, so it is a partial function and \<open>None\<close> stands for a walk that does not
  end. The loop that follows it reverses the chain in place.
\<close>

partial_function (option) getCommitsBetween_loop ::
  "string \<Rightarrow> repo \<Rightarrow> string list \<Rightarrow> string \<Rightarrow> (error + string list) option" where
  "getCommitsBetween_loop start w chain cur =
     (if cur = '''' then Some (Inr (rev chain))
      else if cur = start then Some (Inr (rev chain))
      else
        (case FindCommit cur w of
           Inl err \<Rightarrow> Some (Inl err)
         | Inr c \<Rightarrow>
             if Parent c = '''' then
               (if start = '''' then Some (Inr (chain @ [cur]))
                else Some (Inr (rev (chain @ [cur]))))
             else getCommitsBetween_loop start w (chain @ [cur]) (Parent c)))"

definition getCommitsBetween ::
  "string \<Rightarrow> string \<Rightarrow> repo \<Rightarrow> (error + string list) option" where
  "getCommitsBetween start endHash w = getCommitsBetween_loop start w [] endHash"

text \<open>
  \<open>promptForMessage\<close>: the default message is written to \<open>.kitcat/COMMIT_EDITMSG\<close>, the
  editor runs on that file, and the file is read back; every failure but that of
  \<open>getEditor\<close> is at most a warning.
\<close>

definition EditMsgPath :: string where
  "EditMsgPath = ''.kitcat/COMMIT_EDITMSG''"

definition promptForMessage :: "env \<Rightarrow> string \<Rightarrow> repo \<Rightarrow> string \<times> repo" where
  "promptForMessage env defaultMsg w =
     (let w1 = (if EditMsgPath \<in> readonly w then w
                else w\<lparr>commit_editmsg := Some defaultMsg\<rparr>)
      in case getEditor env of
           Inl err \<Rightarrow> (defaultMsg, w1)
         | Inr (editor, editorArgs) \<Rightarrow>
             (let w2 = w1\<lparr>commit_editmsg :=
                            snd (Run env editor (editorArgs @ [EditMsgPath]) (commit_editmsg w1))\<rparr>
              in (TrimSpace (case commit_editmsg w2 of None \<Rightarrow> '''' | Some out \<Rightarrow> out), w2)))"

definition saveObject :: "env \<Rightarrow> string \<Rightarrow> repo \<Rightarrow> (error + hash) \<times> repo" where
  "saveObject env content w =
     (case MkdirAll ''.kitcat/objects'' w of
        Some err \<Rightarrow> (Inl err, w)
      | None \<Rightarrow>
          if (''.kitcat/objects/'' @ sha1 env content) \<in> readonly w then (Inl IOFailure, w)
          else (Inr (sha1 env content),
                w\<lparr>objects := (objects w)(sha1 env content \<mapsto> content)\<rparr>))"

definition commit_object_text :: "hash \<Rightarrow> hash \<Rightarrow> string \<Rightarrow> string" where
  "commit_object_text treeHash parent msg =
     ''tree '' @ treeHash @ [CHR 0x0A]
     @ (if parent \<noteq> '''' then ''parent '' @ parent @ [CHR 0x0A] else '''')
     @ [CHR 0x0A] @ msg"

definition amendCommitMessage :: "env \<Rightarrow> string \<Rightarrow> string \<Rightarrow> repo \<Rightarrow> error option \<times> repo" where
  "amendCommitMessage env commitID newVal w =
     (case FindCommit commitID w of
        Inl err \<Rightarrow> (Some err, w)
      | Inr c \<Rightarrow>
          (case saveObject env (commit_object_text (TreeHash c) (Parent c) newVal) w of
             (Inl err, w1) \<Rightarrow> (Some err, w1)
           | (Inr newHash, w1) \<Rightarrow> UpdateBranchPointer newHash w1))"

definition amendCommit :: "env \<Rightarrow> Commit \<Rightarrow> string \<Rightarrow> repo \<Rightarrow> error option \<times> repo" where
  "amendCommit env prevHead newMsg w =
     (case CreateTree env w of
        (Inl err, w1) \<Rightarrow> (Some err, w1)
      | (Inr treeHash, w1) \<Rightarrow>
          (case saveObject env (commit_object_text treeHash (Parent prevHead) newMsg) w1 of
             (Inl err, w2) \<Rightarrow> (Some err, w2)
           | (Inr newHash, w2) \<Rightarrow> UpdateBranchPointer newHash w2))"

definition executePick :: "env \<Rightarrow> string \<Rightarrow> repo \<Rightarrow> error option \<times> repo" where
  "executePick env h w = cherryPick env h False w"

definition executeReword :: "env \<Rightarrow> string \<Rightarrow> repo \<Rightarrow> error option \<times> repo" where
  "executeReword env h w =
     (case cherryPick env h False w of
        (Some err, w1) \<Rightarrow> (Some err, w1)
      | (None, w1) \<Rightarrow>
          (let head = commit_or_zero (GetHeadCommit w1) in
           case promptForMessage env (Message head) w1 of
             (newMsg, w2) \<Rightarrow> amendCommitMessage env (ID head) newMsg w2))"

definition executeSquash :: "env \<Rightarrow> string \<Rightarrow> repo \<Rightarrow> error option \<times> repo" where
  "executeSquash env h w =
     (case cherryPick env h True w of
        (Some err, w1) \<Rightarrow> (Some err, w1)
      | (None, w1) \<Rightarrow>
          (let prevHead = commit_or_zero (GetHeadCommit w1);
               targetCommit = commit_or_zero (FindCommit h w1)
           in amendCommit env prevHead
                (Message prevHead @ [CHR 0x0A, CHR 0x0A] @ Message targetCommit) w1))"

definition TmpBranchRef :: string where
  "TmpBranchRef = ''refs/heads/kitcat-rebase-tmp''"

definition finishRebase :: "RebaseState \<Rightarrow> repo \<Rightarrow> error option \<times> repo" where
  "finishRebase state w =
     (case readHead w of
        Inl err \<Rightarrow> (Some err, w)
      | Inr headHash \<Rightarrow>
          if HeadName state \<noteq> '''' then
            (case WriteFile_HEAD (''ref: '' @ HeadName state) w of
               (Some err, w1) \<Rightarrow> (Some err, w1)
             | (None, w1) \<Rightarrow>
                 (case WriteFile_ref (HeadName state) headHash w1 of
                    (Some err, w2) \<Rightarrow> (Some err, w2)
                  | (None, w2) \<Rightarrow> ClearRebaseState (Remove_ref TmpBranchRef w2)))
          else ClearRebaseState (Remove_ref TmpBranchRef w))"

text \<open>
  \<open>RunRebaseLoop\<close>. \<open>execute_step\<close> is the \<open>switch action\<close> of its body, giving
  \<open>stepErr\<close>. The loop is \<open>for { ... }\<close>; it is a partial function, \<open>None\<close> standing for
  a loop that does not end.
\<close>

definition execute_step :: "env \<Rightarrow> string \<Rightarrow> string \<Rightarrow> repo \<Rightarrow> error option \<times> repo" where
  "execute_step env action commitHash w =
     (if action = ''pick'' \<or> action = ''p'' then executePick env commitHash w
      else if action = ''reword'' \<or> action = ''r'' then executeReword env commitHash w
      else if action = ''squash'' \<or> action = ''s'' then executeSquash env commitHash w
      else if action = ''drop'' \<or> action = ''d'' then (None, w)
      else (None, w))"

partial_function (option) RunRebaseLoop :: "env \<Rightarrow> repo \<Rightarrow> (error option \<times> repo) option" where
  "RunRebaseLoop env w =
     (case ReadNextTodo w of
        Inl err \<Rightarrow> Some (Some err, w)
      | Inr (cmdLine, state) \<Rightarrow>
          if CurrentStep state \<ge> length (TodoSteps state) then Some (finishRebase state w)
          else if length (Fields cmdLine) < 2 then
            (case AdvanceRebaseStep state w of
               (Some err, w1) \<Rightarrow> Some (Some err, w1)
             | (None, w1) \<Rightarrow> RunRebaseLoop env w1)
          else
            (case execute_step env (Fields cmdLine ! 0) (Fields cmdLine ! 1) w of
               (Some stepErr, w1) \<Rightarrow> Some (None, w1)
             | (None, w1) \<Rightarrow>
                 (case AdvanceRebaseStep state w1 of
                    (Some err, w2) \<Rightarrow> Some (Some err, w2)
                  | (None, w2) \<Rightarrow> RunRebaseLoop env w2)))"

definition TodoPath :: string where
  "TodoPath = ''.kitcat/rebase-todo''"

text \<open>
  \<open>RebaseInteractive\<close>. The function is modelled in two parts: \<open>RebaseInteractive\<close>
  runs up to the call of \<open>getCommitsBetween\<close>, and \<open>rebase_commits\<close> is the rest of its
  body, from the test \<open>len(commitsToRebase) == 0\<close> on: the todo file is written, the
  editor runs on it, the edited file is read and parsed, the state saved, the temporary
  branch created at the base, HEAD pointed at it, the base checked out and the loop
  run.
\<close>

definition rebase_commits ::
  "env \<Rightarrow> Commit \<Rightarrow> string \<Rightarrow> hash \<Rightarrow> string list \<Rightarrow> repo
     \<Rightarrow> (error option \<times> repo) option" where
  "rebase_commits env ontoCommit rebaseHeadNameVal headHash commitsToRebase w =
     (if length commitsToRebase = 0 then Some (None, w)
      else if TodoPath \<in> readonly w then Some (Some IOFailure, w)
      else
        (case getEditor env of
           Inl err \<Rightarrow> Some (Some err, w\<lparr>rebase_todo := Some (generateTodo commitsToRebase w)\<rparr>)
         | Inr (editor, editorArgs) \<Rightarrow>
        (case Run env editor (editorArgs @ [TodoPath]) (Some (generateTodo commitsToRebase w)) of
           (Some err, f) \<Rightarrow> Some (Some (Wrapf ''failed to run editor'' err), w\<lparr>rebase_todo := f\<rparr>)
         | (None, None) \<Rightarrow> Some (Some IOFailure, w\<lparr>rebase_todo := None\<rparr>)
         | (None, Some newTodoContent) \<Rightarrow>
             if length (parseTodo newTodoContent) = 0 then
               Some (None, w\<lparr>rebase_todo := Some newTodoContent\<rparr>)
             else
             (case SaveRebaseState \<lparr>HeadName = rebaseHeadNameVal, Onto = ID ontoCommit,
                                     OrigHead = headHash, TodoSteps = parseTodo newTodoContent,
                                     CurrentStep = 0\<rparr>
                     (w\<lparr>rebase_todo := Some newTodoContent\<rparr>) of
                (Some err, w1) \<Rightarrow> Some (Some err, w1)
              | (None, w1) \<Rightarrow>
             (case MkdirAll ''.kitcat/refs/heads'' w1 of
                Some err \<Rightarrow> Some (Some err, w1)
              | None \<Rightarrow>
             (case WriteFile_ref TmpBranchRef (ID ontoCommit) w1 of
                (Some err, w2) \<Rightarrow> Some (Some err, w2)
              | (None, w2) \<Rightarrow>
             (case WriteFile_HEAD (''ref: '' @ TmpBranchRef) w2 of
                (Some err, w3) \<Rightarrow> Some (Some (Wrapf ''failed to update HEAD'' err), w3)
              | (None, w3) \<Rightarrow>
             (case UpdateWorkspaceAndIndex env (ID ontoCommit) w3 of
                (Some err, w4) \<Rightarrow> Some (Some (Wrapf ''failed to checkout base'' err), w4)
              | (None, w4) \<Rightarrow> RunRebaseLoop env w4))))))))"

definition RebaseInteractive :: "env \<Rightarrow> string \<Rightarrow> repo \<Rightarrow> (error option \<times> repo) option" where
  "RebaseInteractive env commitHash w =
     (if \<not> IsRepoInitialized w then Some (Some (Errorf ''not a kitcat repository''), w)
      else case IsWorkDirDirty env w of
        Inl err \<Rightarrow> Some (Some (Wrapf ''failed to check working directory status'' err), w)
      | Inr isDirty \<Rightarrow>
          if isDirty then Some (Some (Errorf ''cannot rebase: you have unstaged changes''), w)
          else
          (case FindCommit commitHash w of
             Inl err \<Rightarrow>
               Some (Some (Wrapf (''invalid base commit '' @ [CHR 0x27] @ commitHash @ [CHR 0x27])
                             err), w)
           | Inr ontoCommit \<Rightarrow>
          (case GetHeadState w of
             Inl err \<Rightarrow> Some (Some err, w)
           | Inr headState \<Rightarrow>
          (case readHead w of
             Inl err \<Rightarrow> Some (Some err, w)
           | Inr headHash \<Rightarrow>
          (case getCommitsBetween (ID ontoCommit) headHash w of
             None \<Rightarrow> None
           | Some (Inl err) \<Rightarrow> Some (Some err, w)
           | Some (Inr commitsToRebase) \<Rightarrow>
               rebase_commits env ontoCommit
                 (if \<not> HasPrefix headState ''HEAD'' then ''refs/heads/'' @ headState else [])
                 headHash commitsToRebase w)))))"

section \<open>Ancestry\<close>

text \<open>
  \<open>parent_walk w h cs t\<close>: following the parent pointers of the commit graph from \<open>h\<close>
  visits the commits \<open>cs\<close>, newest first, and arrives at \<open>t\<close>. Each visited reference
  is not empty and resolves; \<open>t\<close> is the parent recorded in the last commit visited (the
  empty string when that commit is the root), and \<open>t = h\<close> when nothing is visited.
\<close>

inductive parent_walk :: "repo \<Rightarrow> hash \<Rightarrow> hash list \<Rightarrow> hash \<Rightarrow> bool" for w :: repo where
  walk_done: "parent_walk w h [] h"
| walk_step:
    "h \<noteq> [] \<Longrightarrow> FindCommit h w = Inr c \<Longrightarrow> parent_walk w (Parent c) cs t
     \<Longrightarrow> parent_walk w h (h # cs) t"

section \<open>Example repository\<close>

text \<open>
  A concrete environment and a repository with one commit, used to evaluate the
  definitions. The dirty check of the example compares every tracked file with its
  staged blob.
\<close>

definition env0 :: env where
  "env0 = \<lparr>IsSafePath = (\<lambda>p. True),
           IsWorkDirDirty = (\<lambda>w. Inr (list_ex (\<lambda>(p, h). worktree w p \<noteq> objects w h) (index w))),
           GetConfig = (\<lambda>k. []),
           EDITOR = ''ed'',
           GOOS = ''linux'',
           LookPath = (\<lambda>e. False),
           Run = (\<lambda>e args f. (None, f)),
           digest = (\<lambda>b. ''#'' @ b),
           sha1 = (\<lambda>b. ''sha1-'' @ b),
           hashCommit = (\<lambda>c. ''commit-'' @ Message c),
           encode_tree = (\<lambda>t. concat (map (\<lambda>(p, h). p @ ''='' @ h @ '';'') t)),
           decode_tree = map_of [(''a=1;'', [(''a'', ''1'')]), (''a=2;'', [(''a'', ''2'')]),
                                 (''a=3;'', [(''a'', ''3'')]), ([], [])],
           now = 0,
           filepath_Clean = (\<lambda>p. p),
           filepath_Dir = (\<lambda>p. ''.''),
           error_text = (\<lambda>e. ''storage error'')\<rparr>"

definition commit1 :: Commit where
  "commit1 = \<lparr>ID = ''c1aaaaaa'', Parent = '''', Message = ''first'', Timestamp = 1,
              TreeHash = ''T1'', AuthorName = ''A'', AuthorEmail = ''a@example.com''\<rparr>"

definition repo1 :: repo where
  "repo1 = \<lparr>kitcat_dir = True,
            HEAD = Some ''ref: refs/heads/main'',
            refs = [''refs/heads/main'' \<mapsto> ''c1aaaaaa''],
            objects = [''T1'' \<mapsto> ''a=1;'', ''1'' \<mapsto> ''one''],
            index = [(''a'', ''1'')],
            commits = [commit1],
            stash = [],
            rebase_state = None,
            rebase_todo = None,
            commit_editmsg = None,
            worktree = [''a'' \<mapsto> ''one''],
            readonly = {}\<rparr>"

text \<open>
  \<open>repo2\<close>: HEAD ends with a line feed and the object store is empty, so the tree of
  \<open>commit1\<close> cannot be parsed; \<open>repo2_restored\<close> is \<open>repo2\<close> after a failed reset.
  \<open>repo3\<close>: the tree of \<open>commit1\<close> is stored but its blob is not.
\<close>

definition repo2 :: repo where
  "repo2 = repo1\<lparr>HEAD := Some ''ref: refs/heads/main\<newline>'', objects := Map.empty\<rparr>"

definition repo2_restored :: repo where
  "repo2_restored = repo1\<lparr>HEAD := Some ''ref: refs/heads/main'', objects := Map.empty\<rparr>"

definition repo3 :: repo where
  "repo3 = repo1\<lparr>objects := [''T1'' \<mapsto> ''a=1;'']\<rparr>"

text \<open>
  \<open>repo0\<close>: a repository just initialized, with no commits. \<open>repo4\<close>: \<open>repo1\<close> with one
  stash entry and an edited tracked file; \<open>repo4_popped\<close> is \<open>repo4\<close> without the entry.
\<close>

definition repo0 :: repo where
  "repo0 = \<lparr>kitcat_dir = True,
            HEAD = Some ''ref: refs/heads/main'',
            refs = [''refs/heads/main'' \<mapsto> []],
            objects = Map.empty,
            index = [],
            commits = [],
            stash = [],
            rebase_state = None,
            rebase_todo = None,
            commit_editmsg = None,
            worktree = Map.empty,
            readonly = {}\<rparr>"

definition stash1 :: Commit where
  "stash1 = \<lparr>ID = ''s1aaaaaa'', Parent = ''c1aaaaaa'', Message = ''WIP on main: first'',
             Timestamp = 2, TreeHash = ''T2'', AuthorName = ''A'',
             AuthorEmail = ''a@example.com''\<rparr>"

definition repo4 :: repo where
  "repo4 = repo1\<lparr>objects := [''T1'' \<mapsto> ''a=1;'', ''1'' \<mapsto> ''one'',
                              ''T2'' \<mapsto> ''a=2;'', ''2'' \<mapsto> ''two''],
                  commits := [commit1, stash1],
                  stash := [''s1aaaaaa''],
                  worktree := [''a'' \<mapsto> ''edited'']\<rparr>"

definition repo4_popped :: repo where
  "repo4_popped = repo4\<lparr>stash := []\<rparr>"

text \<open>
  \<open>repo5\<close>: the parent commit has the tree \<open>{a:1}\<close>, its child the tree \<open>{a:2}\<close>, and
  HEAD, another child of the parent, the tree \<open>{a:3}\<close>. \<open>repo6\<close>: the parent has the
  tree \<open>{a:1}\<close>, its child \<open>commitD\<close> and HEAD (\<open>commitE\<close>) both have the empty tree, the
  Index is empty and a file \<open>a\<close> that is not tracked lies in the working tree.
\<close>

definition commitP :: Commit where
  "commitP = \<lparr>ID = ''cPaaaaaa'', Parent = [], Message = ''parent'', Timestamp = 1,
              TreeHash = ''TP'', AuthorName = ''A'', AuthorEmail = ''a@example.com''\<rparr>"

definition commitC :: Commit where
  "commitC = \<lparr>ID = ''cCaaaaaa'', Parent = ''cPaaaaaa'', Message = ''child'', Timestamp = 2,
              TreeHash = ''TC'', AuthorName = ''A'', AuthorEmail = ''a@example.com''\<rparr>"

definition commitH :: Commit where
  "commitH = \<lparr>ID = ''cHaaaaaa'', Parent = ''cPaaaaaa'', Message = ''head'', Timestamp = 3,
              TreeHash = ''TH'', AuthorName = ''A'', AuthorEmail = ''a@example.com''\<rparr>"

definition commitD :: Commit where
  "commitD = \<lparr>ID = ''cDaaaaaa'', Parent = ''cPaaaaaa'', Message = ''delete a'', Timestamp = 2,
              TreeHash = ''TE'', AuthorName = ''A'', AuthorEmail = ''a@example.com''\<rparr>"

definition commitE :: Commit where
  "commitE = \<lparr>ID = ''cEaaaaaa'', Parent = ''cPaaaaaa'', Message = ''a is gone'', Timestamp = 3,
              TreeHash = ''TE'', AuthorName = ''A'', AuthorEmail = ''a@example.com''\<rparr>"

definition repo5 :: repo where
  "repo5 = \<lparr>kitcat_dir = True,
            HEAD = Some ''ref: refs/heads/main'',
            refs = [''refs/heads/main'' \<mapsto> ''cHaaaaaa''],
            objects = [''TP'' \<mapsto> ''a=1;'', ''TC'' \<mapsto> ''a=2;'', ''TH'' \<mapsto> ''a=3;'',
                       ''1'' \<mapsto> ''one'', ''2'' \<mapsto> ''two'', ''3'' \<mapsto> ''three''],
            index = [(''a'', ''3'')],
            commits = [commitP, commitC, commitH],
            stash = [],
            rebase_state = None,
            rebase_todo = None,
            commit_editmsg = None,
            worktree = [''a'' \<mapsto> ''three''],
            readonly = {}\<rparr>"

definition repo6 :: repo where
  "repo6 = \<lparr>kitcat_dir = True,
            HEAD = Some ''ref: refs/heads/main'',
            refs = [''refs/heads/main'' \<mapsto> ''cEaaaaaa''],
            objects = [''TP'' \<mapsto> ''a=1;'', ''TE'' \<mapsto> [], ''1'' \<mapsto> ''one''],
            index = [],
            commits = [commitP, commitD, commitE],
            stash = [],
            rebase_state = None,
            rebase_todo = None,
            commit_editmsg = None,
            worktree = [''a'' \<mapsto> ''stray''],
            readonly = {}\<rparr>"

text \<open>
  \<open>repo7\<close>: \<open>repo5\<close> in the middle of a rebase whose only step picks the child;
  \<open>repo8\<close>: a linear history of three commits with HEAD at the last, \<open>repo9\<close> the same
  history with HEAD at the first.
\<close>

definition state7 :: RebaseState where
  "state7 = \<lparr>HeadName = ''refs/heads/main'', Onto = ''cHaaaaaa'', OrigHead = ''cCaaaaaa'',
             TodoSteps = [''pick cCaaaaaa child''], CurrentStep = 0\<rparr>"

definition repo7 :: repo where
  "repo7 = repo5\<lparr>rebase_state := Some state7\<rparr>"

definition commit2 :: Commit where
  "commit2 = \<lparr>ID = ''c2aaaaaa'', Parent = ''c1aaaaaa'', Message = ''second'', Timestamp = 2,
              TreeHash = ''T1'', AuthorName = ''A'', AuthorEmail = ''a@example.com''\<rparr>"

definition commit3 :: Commit where
  "commit3 = \<lparr>ID = ''c3aaaaaa'', Parent = ''c2aaaaaa'', Message = ''third'', Timestamp = 3,
              TreeHash = ''T1'', AuthorName = ''A'', AuthorEmail = ''a@example.com''\<rparr>"

definition repo8 :: repo where
  "repo8 = repo1\<lparr>refs := [''refs/heads/main'' \<mapsto> ''c3aaaaaa''],
                  commits := [commit1, commit2, commit3]\<rparr>"

definition repo9 :: repo where
  "repo9 = repo1\<lparr>commits := [commit1, commit2, commit3]\<rparr>"

text \<open>
  \<open>repo9_stopped\<close>: \<open>repo9\<close> after an interactive rebase onto \<open>commit3\<close> with an editor
  that leaves the todo file as it is: the state is saved with the root commit as the
  only step, HEAD points at the temporary branch, and no step has been completed.
\<close>

definition state9 :: RebaseState where
  "state9 = \<lparr>HeadName = ''refs/heads/main'', Onto = ''c3aaaaaa'', OrigHead = ''c1aaaaaa'',
             TodoSteps = [''pick c1aaaaaa first''], CurrentStep = 0\<rparr>"

definition repo9_stopped :: repo where
  "repo9_stopped =
     repo9\<lparr>HEAD := Some ''ref: refs/heads/kitcat-rebase-tmp'',
           refs := [''refs/heads/main'' \<mapsto> ''c1aaaaaa'',
                    ''refs/heads/kitcat-rebase-tmp'' \<mapsto> ''c3aaaaaa''],
           rebase_state := Some state9,
           rebase_todo := Some (generateTodo [''c1aaaaaa''] repo9)\<rparr>"

section \<open>Evaluation and frame lemmas\<close>

lemmas string_defs = TrimSpace_def isSpace_def HasPrefix_def

lemmas path_defs = HeadPath_def IndexPath_def CommitsPath_def StashPath_def RebaseStatePath_def
  TodoPath_def EditMsgPath_def TmpBranchRef_def

lemmas file_defs = ReadFile_HEAD_def WriteFile_HEAD_def WriteFile_work_def Remove_work_def
  WriteFile_ref_def Remove_ref_def MkdirAll_def

lemmas storage_defs = IsRepoInitialized_def FindCommit_def ReadObject_def ParseTree_def
  LoadIndex_def WriteIndex_def UpdateWorkspaceAndIndex_def readHead_def GetHeadState_def
  GetHeadCommit_def UpdateBranchPointer_def put_object_def HashAndStoreFile_def CreateTree_def
  AppendCommit_def UpdateIndex_def AddFile_def Commit_def ListStashes_def PushStash_def
  PopStash_def IsRebaseInProgress_def LoadRebaseState_def SaveRebaseState_def
  ClearRebaseState_def ReadNextTodo_def AdvanceRebaseStep_def commit_or_zero_def
  tree_or_nil_def zero_Commit_def

lemmas reset_defs = Reset_def resetIndex_def resetWorkspace_def restore_HEAD_def
  print_HEAD_is_now_def ResetSoft_def ResetMixed_def ResetHard_def

lemmas example_defs = env0_def commit1_def repo1_def repo2_def repo2_restored_def repo3_def
  repo0_def stash1_def repo4_def repo4_popped_def commitP_def commitC_def commitH_def
  commitD_def commitE_def repo5_def repo6_def state7_def repo7_def commit2_def commit3_def
  repo8_def repo9_def state9_def repo9_stopped_def

lemmas cherry_defs = cherryPick_def getChanges_def parentTree_of_def changes_between_def
  lookup_or_empty_def applyChanges_def applyChange_def head_tree_def conflict_error_def
  write_and_stage_def RemoveFile_def RemoveFile_fn_def pathspec_error_def

lemmas rebase_defs = execute_step_def executePick_def executeReword_def executeSquash_def
  Fields_def

lemma FindCommit_frame: "commits w' = commits w \<Longrightarrow> FindCommit k w' = FindCommit k w"
  unfolding FindCommit_def by (erule ssubst) (rule refl)









section \<open>Reset\<close>

text \<open>
  C8. For every target commit that resolves, \<open>Reset\<close> in soft mode changes nothing but
  HEAD: the Index and every file of the working tree are as before the call, and when
  the call succeeds HEAD holds the target.
\<close>

theorem Reset_soft_moves_only_HEAD:
  assumes "FindCommit commitHash w = Inr c"
    and "Reset env commitHash ResetSoft w = (r, w')"
  shows "index w' = index w \<and> worktree w' = worktree w \<and> w' = w\<lparr>HEAD := HEAD w'\<rparr>
         \<and> (r = Ok \<longrightarrow> HEAD w' = Some commitHash)"
  using assms
  by (auto simp: Reset_def Let_def WriteFile_HEAD_def print_HEAD_is_now_def
      split: if_splits sum.splits)

theorem Reset_soft_moves_only_HEAD_witness:
  "FindCommit ''c1aaaaaa'' repo1 = Inr commit1
   \<and> Reset env0 ''c1aaaaaa'' ResetSoft repo1 = (Ok, repo1\<lparr>HEAD := Some ''c1aaaaaa''\<rparr>)
   \<and> index (repo1\<lparr>HEAD := Some ''c1aaaaaa''\<rparr>) = index repo1
   \<and> worktree (repo1\<lparr>HEAD := Some ''c1aaaaaa''\<rparr>) = worktree repo1"
proof -
  have f: "FindCommit ''c1aaaaaa'' repo1 = Inr commit1"
    by (simp add: storage_defs example_defs)
  have r: "Reset env0 ''c1aaaaaa'' ResetSoft repo1 = (Ok, repo1\<lparr>HEAD := Some ''c1aaaaaa''\<rparr>)"
    by (simp add: reset_defs storage_defs file_defs path_defs string_defs example_defs)
  from Reset_soft_moves_only_HEAD [OF f r] r f
  show ?thesis by simp
qed






section \<open>Stash\<close>

text \<open>
  C7. \<open>StashPush\<close> fails whenever the repository has no commits and whenever the working
  tree is clean, and the repository it returns is the one it was given: no stash
  commit is appended and the stash stack is unchanged. In an initialized repository the
  error is "cannot stash: no commits yet" when there are no commits (more generally,
  when \<open>GetHeadCommit\<close> fails with \<open>ErrNoCommits\<close> or with an error whose text holds
  "not found"), and "nothing to stash, working tree clean" when the HEAD commit
  resolves and the tree is clean.
\<close>

theorem StashPush_refuses:
  "(commits w = [] \<longrightarrow> (\<exists>e. StashPush env message w = (Err e, w)))
   \<and> (IsWorkDirDirty env w = Inr False \<longrightarrow> (\<exists>e. StashPush env message w = (Err e, w)))
   \<and> (IsRepoInitialized w \<longrightarrow> commits w = [] \<longrightarrow>
        StashPush env message w = (Err (Errorf ''cannot stash: no commits yet''), w))
   \<and> (IsRepoInitialized w \<longrightarrow> GetHeadCommit w = Inl err \<longrightarrow>
        err = ErrNoCommits \<or> Contains (Error env err) ''not found'' \<longrightarrow>
        StashPush env message w = (Err (Errorf ''cannot stash: no commits yet''), w))
   \<and> (IsRepoInitialized w \<longrightarrow> GetHeadCommit w = Inr headCommit \<longrightarrow>
        IsWorkDirDirty env w = Inr False \<longrightarrow>
        StashPush env message w = (Err (Errorf ''nothing to stash, working tree clean''), w))"
proof -
  have a: "commits w = [] \<longrightarrow> (\<exists>e. StashPush env message w = (Err e, w))"
    by (simp add: StashPush_def GetHeadCommit_def)
  have b: "IsWorkDirDirty env w = Inr False \<longrightarrow> (\<exists>e. StashPush env message w = (Err e, w))"
    by (simp add: StashPush_def split: sum.splits)
  have c: "IsRepoInitialized w \<longrightarrow> commits w = [] \<longrightarrow>
        StashPush env message w = (Err (Errorf ''cannot stash: no commits yet''), w)"
    by (simp add: StashPush_def GetHeadCommit_def)
  have d: "IsRepoInitialized w \<longrightarrow> GetHeadCommit w = Inl err \<longrightarrow>
        err = ErrNoCommits \<or> Contains (Error env err) ''not found'' \<longrightarrow>
        StashPush env message w = (Err (Errorf ''cannot stash: no commits yet''), w)"
    by (simp add: StashPush_def)
  have e: "IsRepoInitialized w \<longrightarrow> GetHeadCommit w = Inr headCommit \<longrightarrow>
        IsWorkDirDirty env w = Inr False \<longrightarrow>
        StashPush env message w = (Err (Errorf ''nothing to stash, working tree clean''), w)"
    by (simp add: StashPush_def)
  from a b c d e show ?thesis by blast
qed

theorem StashPush_refuses_witness:
  "IsRepoInitialized repo0 \<and> commits repo0 = [] \<and> GetHeadCommit repo0 = Inl ErrNoCommits
   \<and> StashPush env0 ''wip'' repo0 = (Err (Errorf ''cannot stash: no commits yet''), repo0)
   \<and> IsRepoInitialized repo1 \<and> GetHeadCommit repo1 = Inr commit1
   \<and> IsWorkDirDirty env0 repo1 = Inr False
   \<and> StashPush env0 ''wip'' repo1 = (Err (Errorf ''nothing to stash, working tree clean''), repo1)"
proof -
  have a: "IsRepoInitialized repo0" "commits repo0 = []" "GetHeadCommit repo0 = Inl ErrNoCommits"
    by (simp_all add: IsRepoInitialized_def GetHeadCommit_def repo0_def)
  have b: "IsRepoInitialized repo1" "GetHeadCommit repo1 = Inr commit1"
    "IsWorkDirDirty env0 repo1 = Inr False"
    by (simp_all add: storage_defs string_defs example_defs)
  from StashPush_refuses [of repo0 env0 "''wip''" ErrNoCommits commit1]
    StashPush_refuses [of repo1 env0 "''wip''" ErrNoCommits commit1] a b
  show ?thesis by simp
qed

text \<open>
  \<open>StashPop\<close> pops before it checks: whenever the repository is initialized,
  \<open>storage.PopStash\<close> returns an entry that resolves and the working tree is dirty, the
  call fails and returns the repository as \<open>PopStash\<close> left it. With the stack of the
  specification, that repository has lost the top entry.
\<close>

lemma StashPop_returns_what_PopStash_left:
  assumes "IsRepoInitialized w" and "PopStash w = (Inr h, w1)"
    and "FindCommit h w1 = Inr c" and "IsWorkDirDirty env w1 = Inr True"
  shows "\<exists>e. StashPop env w = (Err e, w1)"
  using assms by (simp add: StashPop_def)

lemma StashPop_pops_before_dirty_check:
  assumes "IsRepoInitialized w" and "stash w = h # rest" and "StashPath \<notin> readonly w"
    and "FindCommit h w = Inr c"
    and "IsWorkDirDirty env (w\<lparr>stash := rest\<rparr>) = Inr True"
  shows "\<exists>e. StashPop env w = (Err e, w\<lparr>stash := rest\<rparr>)"
proof -
  have "FindCommit h (w\<lparr>stash := rest\<rparr>) = Inr c"
    using assms(4) FindCommit_frame [of "w\<lparr>stash := rest\<rparr>" w h] by simp
  with assms show ?thesis by (simp add: StashPop_def PopStash_def)
qed

text \<open>
  C1. In \<open>repo4\<close> the working tree is dirty and the stash stack holds one entry.
  \<open>StashPop\<close> fails with the error for local changes, and the repository it leaves is
  \<open>repo4_popped\<close>: the entry has been removed from the stack.
\<close>

theorem StashPop_dirty_drops_entry:
  "IsWorkDirDirty env0 repo4 = Inr True
   \<and> stash repo4 = [''s1aaaaaa'']
   \<and> StashPop env0 repo4
       = (Err (Errorf ''Error: your local changes would be overwritten by stash pop\<newline>Please commit your changes or stash them before you pop''),
          repo4_popped)
   \<and> stash repo4_popped = []"
  by (simp add: StashPop_def storage_defs file_defs path_defs string_defs example_defs)


section \<open>Cherry-pick\<close>











section \<open>Interactive rebase\<close>

lemma parent_walk_from_empty:
  assumes "parent_walk w [] cs t"
  shows "cs = [] \<and> t = []"
  using assms by (cases rule: parent_walk.cases) simp_all

lemma parent_walk_head:
  assumes "parent_walk w h cs t" and "cs \<noteq> []"
  shows "hd cs = h"
  using assms by (cases rule: parent_walk.cases) simp_all

lemma getCommitsBetween_loop_walk:
  assumes "parent_walk w cur cs t"
    and "start \<notin> set cs" and "start \<noteq> []" and "t = start \<or> t = []"
  shows "getCommitsBetween_loop start w chain cur = Some (Inr (rev (chain @ cs)))"
  using assms
proof (induction arbitrary: chain rule: parent_walk.induct)
  case (walk_done h)
  then show ?case
    by (subst getCommitsBetween_loop.simps) auto
next
  case (walk_step h c cs t)
  from walk_step.prems have hs: "h \<noteq> start" and cs: "start \<notin> set cs" by auto
  show ?case
  proof (cases "Parent c = []")
    case True
    with walk_step.hyps(3) have "cs = []" using parent_walk_from_empty by simp
    with True walk_step.hyps(1,2) hs walk_step.prems(2) show ?thesis
      by (subst getCommitsBetween_loop.simps) simp
  next
    case False
    have "getCommitsBetween_loop start w (chain @ [h]) (Parent c)
            = Some (Inr (rev ((chain @ [h]) @ cs)))"
      using walk_step.IH [OF cs walk_step.prems(2,3)] .
    with False walk_step.hyps(1,2) hs show ?thesis
      by (subst getCommitsBetween_loop.simps) simp
  qed
qed

lemma walk8: "parent_walk repo8 ''c3aaaaaa'' [''c3aaaaaa'', ''c2aaaaaa''] ''c1aaaaaa''"
proof -
  have f3: "FindCommit ''c3aaaaaa'' repo8 = Inr commit3"
    and f2: "FindCommit ''c2aaaaaa'' repo8 = Inr commit2"
    by (simp_all add: FindCommit_def HasPrefix_def repo8_def repo1_def commit1_def commit2_def commit3_def)
  have p3: "Parent commit3 = ''c2aaaaaa''" and p2: "Parent commit2 = ''c1aaaaaa''"
    by (simp_all add: commit2_def commit3_def)
  have "parent_walk repo8 (Parent commit2) [] ''c1aaaaaa''"
    unfolding p2 by (rule walk_done)
  then have "parent_walk repo8 ''c2aaaaaa'' [''c2aaaaaa''] ''c1aaaaaa''"
    using f2 by (intro walk_step) simp_all
  then have "parent_walk repo8 (Parent commit3) [''c2aaaaaa''] ''c1aaaaaa''"
    unfolding p3 .
  then show ?thesis
    using f3 by (intro walk_step) simp_all
qed

lemma walk1: "parent_walk repo1 ''c1aaaaaa'' [] ''c1aaaaaa''"
  by (rule walk_done)


text \<open>
  C5, as amended. For every base that is an ancestor of HEAD, that is, reached from
  HEAD by following parent pointers, \<open>cs\<close> being the commits visited before the base
  is first met, \<open>getCommitsBetween\<close> returns exactly \<open>cs\<close> reversed: the commits after
  the base up to and including the commit of HEAD, oldest first. When that list is
  empty (HEAD is the base), \<open>RebaseInteractive\<close> on a clean initialized repository
  succeeds and returns the repository as it was given: no RebaseState is persisted and
  HEAD is not moved.
\<close>

theorem getCommitsBetween_ancestor:
  assumes "parent_walk w headHash cs base"
    and "base \<notin> set cs" and "base \<noteq> []"
  shows "getCommitsBetween base headHash w = Some (Inr (rev cs))
         \<and> (cs \<noteq> [] \<longrightarrow> last (rev cs) = headHash)
         \<and> (cs = [] \<longrightarrow> IsRepoInitialized w \<longrightarrow> IsWorkDirDirty env w = Inr False \<longrightarrow>
              FindCommit commitHash w = Inr ontoCommit \<longrightarrow> ID ontoCommit = base \<longrightarrow>
              GetHeadState w = Inr headState \<longrightarrow> readHead w = Inr headHash \<longrightarrow>
              RebaseInteractive env commitHash w = Some (None, w))"
proof -
  have g: "getCommitsBetween base headHash w = Some (Inr (rev cs))"
    using getCommitsBetween_loop_walk [OF assms(1,2,3), of "[]"]
    by (simp add: getCommitsBetween_def)
  have l: "cs \<noteq> [] \<longrightarrow> last (rev cs) = headHash"
    using parent_walk_head [OF assms(1)] by (simp add: last_rev)
  have r: "cs = [] \<longrightarrow> IsRepoInitialized w \<longrightarrow> IsWorkDirDirty env w = Inr False \<longrightarrow>
              FindCommit commitHash w = Inr ontoCommit \<longrightarrow> ID ontoCommit = base \<longrightarrow>
              GetHeadState w = Inr headState \<longrightarrow> readHead w = Inr headHash \<longrightarrow>
              RebaseInteractive env commitHash w = Some (None, w)"
    using g by (simp add: RebaseInteractive_def rebase_commits_def)
  from g l r show ?thesis by blast
qed

theorem getCommitsBetween_ancestor_witness:
  "parent_walk repo8 ''c3aaaaaa'' [''c3aaaaaa'', ''c2aaaaaa''] ''c1aaaaaa''
   \<and> getCommitsBetween ''c1aaaaaa'' ''c3aaaaaa'' repo8 = Some (Inr [''c2aaaaaa'', ''c3aaaaaa''])
   \<and> parent_walk repo1 ''c1aaaaaa'' [] ''c1aaaaaa''
   \<and> IsRepoInitialized repo1 \<and> IsWorkDirDirty env0 repo1 = Inr False
   \<and> FindCommit ''c1aaaaaa'' repo1 = Inr commit1 \<and> ID commit1 = ''c1aaaaaa''
   \<and> GetHeadState repo1 = Inr ''main'' \<and> readHead repo1 = Inr ''c1aaaaaa''
   \<and> RebaseInteractive env0 ''c1aaaaaa'' repo1 = Some (None, repo1)"
proof -
  have a: "IsRepoInitialized repo1" "IsWorkDirDirty env0 repo1 = Inr False"
    "FindCommit ''c1aaaaaa'' repo1 = Inr commit1" "ID commit1 = ''c1aaaaaa''"
    "GetHeadState repo1 = Inr ''main''" "readHead repo1 = Inr ''c1aaaaaa''"
    by (simp_all add: storage_defs string_defs example_defs)
  from getCommitsBetween_ancestor [OF walk8, of env0 "''c1aaaaaa''" commit1 "''main''"]
    getCommitsBetween_ancestor [OF walk1, of env0 "''c1aaaaaa''" commit1 "''main''"]
    walk8 walk1 a
  show ?thesis by simp
qed

text \<open>
  C5, as stated, fails. In \<open>repo8\<close> the history is \<open>c1\<close>, \<open>c2\<close>, \<open>c3\<close> and HEAD is
  at \<open>c3\<close>: the list computed for the base \<open>c1\<close> holds \<open>c3\<close>, the commit of HEAD,
  and is not the list of the commits strictly between the base and HEAD.
\<close>

theorem getCommitsBetween_counterexample:
  "readHead repo8 = Inr ''c3aaaaaa''
   \<and> getCommitsBetween ''c1aaaaaa'' ''c3aaaaaa'' repo8 = Some (Inr [''c2aaaaaa'', ''c3aaaaaa''])
   \<and> getCommitsBetween ''c1aaaaaa'' ''c3aaaaaa'' repo8 \<noteq> Some (Inr [''c2aaaaaa''])"
proof -
  have r: "readHead repo8 = Inr ''c3aaaaaa''"
    by (simp add: storage_defs string_defs example_defs)
  have g: "getCommitsBetween ''c1aaaaaa'' ''c3aaaaaa'' repo8
             = Some (Inr [''c2aaaaaa'', ''c3aaaaaa''])"
    using getCommitsBetween_loop_walk [OF walk8, of "''c1aaaaaa''" "[]"]
    by (simp add: getCommitsBetween_def)
  from r g show ?thesis by simp
qed







lemma WriteFile_work_rs:
  "WriteFile_work p c w = (r, w') \<Longrightarrow> rebase_state w' = rebase_state w"
  by (auto simp: WriteFile_work_def split: if_splits)

lemma Remove_work_rs: "rebase_state (snd (Remove_work p w)) = rebase_state w"
  by (simp add: Remove_work_def)

lemma remove_from_disk_rs: "rebase_state (remove_from_disk ps w) = rebase_state w"
  by (induction ps arbitrary: w) (simp_all add: Remove_work_rs)

lemma WriteIndex_rs: "WriteIndex idx w = (r, w') \<Longrightarrow> rebase_state w' = rebase_state w"
  by (auto simp: WriteIndex_def split: if_splits)

lemma UpdateIndex_rs:
  assumes "UpdateIndex fn w = (r, w')"
    and "\<And>idx. rebase_state (snd (fn idx w)) = rebase_state w"
  shows "rebase_state w' = rebase_state w"
proof -
  obtain e idx' w1 where f: "fn (index w) w = ((e, idx'), w1)"
    by (cases "fn (index w) w") auto
  have w1: "rebase_state w1 = rebase_state w" using assms(2) [of "index w"] f by simp
  show ?thesis
  proof (cases e)
    case None
    with assms(1) f have "WriteIndex idx' w1 = (r, w')"
      by (simp add: UpdateIndex_def LoadIndex_def)
    from WriteIndex_rs [OF this] w1 show ?thesis by simp
  next
    case (Some a)
    with assms(1) f have "w' = w1" by (simp add: UpdateIndex_def LoadIndex_def)
    with w1 show ?thesis by simp
  qed
qed

lemma RemoveFile_rs: "RemoveFile env p rec w = (r, w') \<Longrightarrow> rebase_state w' = rebase_state w"
  unfolding RemoveFile_def
  by (auto split: if_splits elim!: UpdateIndex_rs
      simp: RemoveFile_fn_def Let_def remove_from_disk_rs)

lemma put_object_rs: "put_object env b w = (r, w') \<Longrightarrow> rebase_state w' = rebase_state w"
  by (auto simp: put_object_def split: if_splits)

lemma HashAndStoreFile_rs:
  "HashAndStoreFile env p w = (r, w') \<Longrightarrow> rebase_state w' = rebase_state w"
  by (auto simp: HashAndStoreFile_def split: option.splits dest: put_object_rs)

lemma AddFile_rs:
  assumes "AddFile env p w = (r, w')"
  shows "rebase_state w' = rebase_state w"
proof -
  obtain r1 w1 where h: "HashAndStoreFile env p w = (r1, w1)"
    by (cases "HashAndStoreFile env p w")
  have w1: "rebase_state w1 = rebase_state w" using HashAndStoreFile_rs [OF h] .
  show ?thesis
  proof (cases r1)
    case (Inl e)
    with assms h have "w' = w1" by (simp add: AddFile_def)
    with w1 show ?thesis by simp
  next
    case (Inr d)
    with assms h have "UpdateIndex (\<lambda>idx w'. ((None, AList.update p d idx), w')) w1 = (r, w')"
      by (simp add: AddFile_def)
    from UpdateIndex_rs [OF this] w1 show ?thesis by simp
  qed
qed

lemma write_and_stage_rs:
  "write_and_stage env p c w = (r, w') \<Longrightarrow> rebase_state w' = rebase_state w"
  unfolding write_and_stage_def
  by (auto split: prod.splits option.splits dest!: WriteFile_work_rs AddFile_rs)

lemma applyChange_rs:
  "applyChange env headTree p ch w = (r, w') \<Longrightarrow> rebase_state w' = rebase_state w"
  unfolding applyChange_def
  by (auto split: if_splits option.splits sum.splits dest!: RemoveFile_rs write_and_stage_rs)

lemma applyChanges_loop_rs:
  "applyChanges_loop env headTree changes w = (r, w') \<Longrightarrow> rebase_state w' = rebase_state w"
proof (induction changes arbitrary: w)
  case Nil
  then show ?case by simp
next
  case (Cons a changes)
  obtain p ch where a: "a = (p, ch)" by (cases a)
  obtain r1 w1 where s: "applyChange env headTree p ch w = (r1, w1)"
    by (cases "applyChange env headTree p ch w")
  have w1: "rebase_state w1 = rebase_state w" using applyChange_rs [OF s] .
  show ?case
  proof (cases r1)
    case None
    with Cons.prems a s have "applyChanges_loop env headTree changes w1 = (r, w')" by simp
    from Cons.IH [OF this] w1 show ?thesis by simp
  next
    case (Some e)
    with Cons.prems a s have "w' = w1" by simp
    with w1 show ?thesis by simp
  qed
qed

lemma CreateTree_rs: "CreateTree env w = (r, w') \<Longrightarrow> rebase_state w' = rebase_state w"
  by (auto simp: CreateTree_def LoadIndex_def dest: put_object_rs)

lemma AppendCommit_rs: "AppendCommit c w = (r, w') \<Longrightarrow> rebase_state w' = rebase_state w"
  by (auto simp: AppendCommit_def split: if_splits)

lemma UpdateBranchPointer_rs:
  "UpdateBranchPointer h w = (r, w') \<Longrightarrow> rebase_state w' = rebase_state w"
  by (auto simp: UpdateBranchPointer_def WriteFile_ref_def WriteFile_HEAD_def
      split: option.splits if_splits)

lemma Commit_rs: "Commit env msg w = (r, w') \<Longrightarrow> rebase_state w' = rebase_state w"
  unfolding Commit_def Let_def
  by (auto split: prod.splits sum.splits if_splits option.splits
      dest!: CreateTree_rs AppendCommit_rs UpdateBranchPointer_rs)

lemma cherryPick_rs: "cherryPick env h nc w = (r, w') \<Longrightarrow> rebase_state w' = rebase_state w"
  unfolding cherryPick_def applyChanges_def
  by (auto split: prod.splits sum.splits if_splits option.splits
      dest!: applyChanges_loop_rs Commit_rs)

lemma promptForMessage_rs:
  "promptForMessage env m w = (r, w') \<Longrightarrow> rebase_state w' = rebase_state w"
  unfolding promptForMessage_def Let_def
  by (auto split: prod.splits sum.splits if_splits)

lemma saveObject_rs: "saveObject env c w = (r, w') \<Longrightarrow> rebase_state w' = rebase_state w"
  by (auto simp: saveObject_def split: option.splits if_splits)

lemma amendCommitMessage_rs:
  "amendCommitMessage env i m w = (r, w') \<Longrightarrow> rebase_state w' = rebase_state w"
  unfolding amendCommitMessage_def
  by (auto split: prod.splits sum.splits dest!: saveObject_rs UpdateBranchPointer_rs)

lemma amendCommit_rs:
  "amendCommit env c m w = (r, w') \<Longrightarrow> rebase_state w' = rebase_state w"
  unfolding amendCommit_def
  by (auto split: prod.splits sum.splits dest!: CreateTree_rs saveObject_rs UpdateBranchPointer_rs)

lemma executeReword_rs:
  assumes "executeReword env h w = (r, w')"
  shows "rebase_state w' = rebase_state w"
proof -
  obtain r1 w1 where c: "cherryPick env h False w = (r1, w1)"
    by (cases "cherryPick env h False w")
  have w1: "rebase_state w1 = rebase_state w" using cherryPick_rs [OF c] .
  show ?thesis
  proof (cases r1)
    case (Some e)
    with assms c have "w' = w1" by (simp add: executeReword_def)
    with w1 show ?thesis by simp
  next
    case None
    obtain m w2 where p: "promptForMessage env (Message (commit_or_zero (GetHeadCommit w1))) w1
                           = (m, w2)"
      by (cases "promptForMessage env (Message (commit_or_zero (GetHeadCommit w1))) w1")
    have w2: "rebase_state w2 = rebase_state w1" using promptForMessage_rs [OF p] .
    from assms c None p
    have "amendCommitMessage env (ID (commit_or_zero (GetHeadCommit w1))) m w2 = (r, w')"
      by (simp add: executeReword_def Let_def)
    from amendCommitMessage_rs [OF this] w1 w2 show ?thesis by simp
  qed
qed

lemma executeSquash_rs:
  assumes "executeSquash env h w = (r, w')"
  shows "rebase_state w' = rebase_state w"
proof -
  obtain r1 w1 where c: "cherryPick env h True w = (r1, w1)"
    by (cases "cherryPick env h True w")
  have w1: "rebase_state w1 = rebase_state w" using cherryPick_rs [OF c] .
  show ?thesis
  proof (cases r1)
    case (Some e)
    with assms c have "w' = w1" by (simp add: executeSquash_def)
    with w1 show ?thesis by simp
  next
    case None
    with assms c obtain prev msg where "amendCommit env prev msg w1 = (r, w')"
      by (simp add: executeSquash_def Let_def)
    from amendCommit_rs [OF this] w1 show ?thesis by simp
  qed
qed

lemma execute_step_rs:
  assumes "execute_step env action h w = (r, w')"
  shows "rebase_state w' = rebase_state w"
proof -
  have "execute_step env action h w = executePick env h w
        \<or> execute_step env action h w = executeReword env h w
        \<or> execute_step env action h w = executeSquash env h w
        \<or> execute_step env action h w = (None, w)"
    by (simp add: execute_step_def)
  then consider (pick) "execute_step env action h w = executePick env h w"
    | (reword) "execute_step env action h w = executeReword env h w"
    | (squash) "execute_step env action h w = executeSquash env h w"
    | (skip) "execute_step env action h w = (None, w)"
    by blast
  then show ?thesis
  proof cases
    case pick
    with assms have "cherryPick env h False w = (r, w')" by (simp add: executePick_def)
    then show ?thesis by (rule cherryPick_rs)
  next
    case reword
    with assms have "executeReword env h w = (r, w')" by simp
    then show ?thesis by (rule executeReword_rs)
  next
    case squash
    with assms have "executeSquash env h w = (r, w')" by simp
    then show ?thesis by (rule executeSquash_rs)
  next
    case skip
    with assms show ?thesis by simp
  qed
qed

text \<open>
  C6. For every rebase in progress whose current step names an action and a commit:
  whenever the execution of that step returns an error, a cherry-pick conflict among
  them, \<open>RunRebaseLoop\<close> stops and returns without an error of its own, with the
  repository the failed step left; the persisted RebaseState is the one of before the
  step, with the same step index, so that the rebase is still in progress at the step
  that failed.
\<close>

theorem RunRebaseLoop_stops_at_failed_step:
  assumes "rebase_state w = Some state"
    and "CurrentStep state < length (TodoSteps state)"
    and "Fields (TodoSteps state ! CurrentStep state) = action # commitHash # rest"
    and "execute_step env action commitHash w = (Some stepErr, w1)"
  shows "RunRebaseLoop env w = Some (None, w1)
         \<and> rebase_state w1 = Some state
         \<and> IsRebaseInProgress w1"
proof -
  have n: "ReadNextTodo w = Inr (TodoSteps state ! CurrentStep state, state)"
    using assms(1,2) by (simp add: ReadNextTodo_def LoadRebaseState_def)
  have l: "RunRebaseLoop env w = Some (None, w1)"
    using n assms(2,3,4) by (subst RunRebaseLoop.simps) simp
  have s: "rebase_state w1 = Some state"
    using execute_step_rs [OF assms(4)] assms(1) by simp
  from l s show ?thesis by (simp add: IsRebaseInProgress_def)
qed

theorem RunRebaseLoop_stops_at_failed_step_witness:
  "rebase_state repo7 = Some state7
   \<and> CurrentStep state7 < length (TodoSteps state7)
   \<and> Fields (TodoSteps state7 ! CurrentStep state7) = [''pick'', ''cCaaaaaa'', ''child'']
   \<and> execute_step env0 ''pick'' ''cCaaaaaa'' repo7
       = (Some (conflict_error ''a'' ''modified in incoming commit, but modified in HEAD''), repo7)
   \<and> RunRebaseLoop env0 repo7 = Some (None, repo7)"
proof -
  have a: "rebase_state repo7 = Some state7" "CurrentStep state7 < length (TodoSteps state7)"
    by (simp_all add: repo7_def state7_def)
  have f: "Fields (TodoSteps state7 ! CurrentStep state7) = [''pick'', ''cCaaaaaa'', ''child'']"
    by (simp add: state7_def Fields_def isSpace_def)
  have e: "execute_step env0 ''pick'' ''cCaaaaaa'' repo7
       = (Some (conflict_error ''a'' ''modified in incoming commit, but modified in HEAD''), repo7)"
    by (simp add: rebase_defs cherry_defs storage_defs file_defs path_defs string_defs
        example_defs)
  from RunRebaseLoop_stops_at_failed_step [OF a f e] a f e
  show ?thesis by simp
qed

end
